theory Spec2Isabelle
  imports Complex_Main
begin

section \<open>Data model\<close>

text \<open>
  The simulator of \<^verbatim>\<open>server.py\<close> computes on Python floats and unbounded ints. Floats are
  modelled as \<^typ>\<open>real\<close> (exact arithmetic, no rounding, no NaN), ints as \<^typ>\<open>int\<close>,
  \<^verbatim>\<open>float('inf')\<close> as a constructor of its own, and a raised exception as \<open>Inl\<close> of a sum.
\<close>

datatype error = ZeroDivisionError | IndexError | TypeError

datatype xreal = Fin real | PInf

text \<open>\<^verbatim>\<open>x > r\<close> and \<^verbatim>\<open>x <= r\<close> for a possibly infinite \<open>x\<close> and a finite \<open>r\<close>.\<close>

definition xgt :: "xreal \<Rightarrow> real \<Rightarrow> bool" where
  "xgt x r = (case x of PInf \<Rightarrow> True | Fin y \<Rightarrow> y > r)"

definition xle :: "xreal \<Rightarrow> real \<Rightarrow> bool" where
  "xle x r = (case x of PInf \<Rightarrow> False | Fin y \<Rightarrow> y \<le> r)"

text \<open>Float division raises on a zero divisor.\<close>

definition py_div :: "real \<Rightarrow> real \<Rightarrow> error + real" where
  "py_div x y = (if y = 0 then Inl ZeroDivisionError else Inr (x / y))"

text \<open>\<^verbatim>\<open>int(x)\<close> truncates towards zero.\<close>

definition py_int :: "real \<Rightarrow> int" where
  "py_int x = (if 0 \<le> x then \<lfloor>x\<rfloor> else \<lceil>x\<rceil>)"

text \<open>\<^verbatim>\<open>round(x)\<close> and \<^verbatim>\<open>round(x, 0)\<close> round to the nearest integer, a tie to the even one.\<close>

definition py_round :: "real \<Rightarrow> int" where
  "py_round x =
     (let f = \<lfloor>x\<rfloor>; d = x - of_int f
      in if d < 1 / 2 then f else if d > 1 / 2 then f + 1
         else if even f then f else f + 1)"

text \<open>
  The vehicle type is a string in the source; only its equality with the tag of the
  high-speed class is ever tested.
\<close>

datatype vehicle_class = Standard | HighSpeed

record vehicle =
  a_max :: real
  j_max :: real
  notches :: int
  notch_accels :: "real list"
  tau_cmd :: real
  tau_brk :: real
  mass_kg :: real
  maxSpeed_kmh :: real
  forward_notches :: int
  forward_notch_accels :: "real list"
  T_max_kN :: real
  P_max_kW :: real
  veh_type :: vehicle_class
  A0 :: real
  B1 :: real
  C2 :: real

record scenario =
  scn_L :: real
  scn_v0 :: real
  grade_percent :: real
  scn_mu :: real
  scn_dt :: real

text \<open>The values stored in the \<^verbatim>\<open>issues\<close> dictionary of a finished run.\<close>

datatype comfort_msg = ComfortGood | ComfortBad

datatype issue_value = IBool bool | IMsg comfort_msg | IReal real

text \<open>
  \<^verbatim>\<open>State\<close>. The attribute \<^verbatim>\<open>issues\<close> is absent from a fresh \<^verbatim>\<open>State\<close> (\<open>None\<close>) and is
  created by the timer or at the finish.
\<close>

record sim_state =
  st_t :: real
  st_s :: real
  st_v :: real
  st_a :: real
  lever_notch :: int
  internal_notch :: int
  atc_overspeed :: bool
  finished :: bool
  stop_error_m :: "real option"
  residual_speed_kmh :: "real option"
  score :: "real option"
  st_running :: bool
  paused :: bool
  time_budget_s :: real
  time_remaining_s :: real
  timer_enabled :: bool
  time_remaining_int :: int
  time_overrun_s :: real
  time_overrun_int :: int
  time_overrun_started :: bool
  issues :: "(string \<rightharpoonup> issue_value) option"

definition new_State :: sim_state where
  "new_State =
     \<lparr> st_t = 0, st_s = 0, st_v = 0, st_a = 0, lever_notch = 0, internal_notch = 0,
       atc_overspeed = False, finished = False, stop_error_m = None,
       residual_speed_kmh = None, score = None, st_running = False, paused = False,
       time_budget_s = 0, time_remaining_s = 0, timer_enabled = False,
       time_remaining_int = 0, time_overrun_s = 0, time_overrun_int = 0,
       time_overrun_started = False, issues = None \<rparr>"

record cmd =
  cmd_t :: real
  cmd_name :: string
  cmd_val :: int

datatype tasc_phase = Build | Relax

datatype wsp = WspNormal | WspRelease | WspReapply

record pred_cache =
  pc_t :: real
  pc_v :: real
  pc_notch :: int
  pc_s_cur :: xreal
  pc_s_up :: xreal
  pc_s_dn :: xreal

record calib_point =
  cp_v :: real
  cp_L :: real
  cp_t :: real

text \<open>The timer policy attributes of the simulator, read by the time-budget helpers.\<close>

record timer_policy =
  timer_use_table :: bool
  timer_table :: "(int \<times> real) list"
  timer_v_target_kmh :: real
  timer_buffer_s :: real
  timer_calib :: "calib_point list"
  timer_idw_power :: real
  timer_norm_v :: real
  timer_norm_L :: real
  timer_blend_threshold :: real
  timer_min_s :: real
  timer_max_s :: real
  timer_min_effective_v_kmh :: real
  timer_max_effective_v_kmh :: real
  timer_far_outlier_scale :: real

text \<open>
  \<^verbatim>\<open>StoppingSim\<close>. Attributes that no method reads (\<^verbatim>\<open>first_brake_start\<close>, \<^verbatim>\<open>pwr_accel\<close>,
  the unused \<^verbatim>\<open>tau_*\<close> constants, the penalty settings of the disabled timer scoring) are
  left out.
\<close>

record stopping_sim =
  veh :: vehicle
  scn :: scenario
  state :: sim_state
  planned_v0 :: real
  tasc_takeover_rem_m :: real
  tasc_takeover_hyst_m :: real
  running :: bool
  random_mode :: bool
  final_notch_on_finish :: int
  cmd_queue :: "cmd list"
  first_brake_done :: bool
  first_brake_notch :: "int option"
  first_brake_start_t :: "real option"
  seen_zero_notch :: bool
  notch_history :: "int list"
  time_history :: "real list"
  eb_used :: bool
  run_over :: bool
  prev_a :: real
  jerk_history :: "real list"
  tasc_enabled :: bool
  tasc_enabled_initially :: bool
  manual_override :: bool
  tasc_deadband_m :: real
  tasc_hold_min_s :: real
  tasc_last_change_t :: real
  tasc_phase :: tasc_phase
  tasc_peak_notch :: int
  tasc_armed :: bool
  tasc_active :: bool
  tasc_relax_margin_m :: real
  tasc_relax_hold_s :: real
  rr_factor :: real
  tasc_pred_cache :: pred_cache
  tasc_pred_interval :: real
  tasc_last_pred_t :: real
  tasc_speed_eps :: real
  need_b5_last_t :: real
  need_b5_last :: bool
  brk_accel :: real
  brk_elec :: real
  brk_air :: real
  wsp_state :: wsp
  wsp_timer :: real
  a_cmd_filt :: real
  timer :: timer_policy

text \<open>The module constant \<^verbatim>\<open>test_notch\<close>.\<close>

definition test_notch :: int where
  "test_notch = 3"

section \<open>Per-tick acceleration model\<close>

text \<open>\<^verbatim>\<open>StoppingSim._effective_brake_accel\<close>.\<close>

definition effective_brake_accel :: "stopping_sim \<Rightarrow> int \<Rightarrow> real \<Rightarrow> real" where
  "effective_brake_accel sim notch v =
     (if notch \<le> 0 then 0
      else if notch \<ge> int (length (notch_accels (veh sim))) then 0
      else
        let base = notch_accels (veh sim) ! nat notch;
            k_srv = 0.85;
            k_eb = 0.98;
            is_eb = (notch = notches (veh sim) - 1);
            k_adh = (if is_eb then k_eb else k_srv);
            a_cap = - k_adh * scn_mu (scn sim) * 9.81;
            a_eff = max base a_cap
        in if a_eff \<le> a_cap + 1 / 1000000
           then a_cap * (if v > 8 then 0.90 else 0.85)
           else a_eff)"

text \<open>\<^verbatim>\<open>StoppingSim._grade_accel\<close>.\<close>

definition grade_accel :: "stopping_sim \<Rightarrow> real" where
  "grade_accel sim = - 9.81 * (grade_percent (scn sim) / 100)"

text \<open>\<^verbatim>\<open>StoppingSim._davis_accel\<close>; the division by the mass raises when the mass is zero.\<close>

definition davis_accel :: "stopping_sim \<Rightarrow> real \<Rightarrow> error + real" where
  "davis_accel sim v =
     (if v < 0.01 then Inr 0
      else
        let A0' = A0 (veh sim) * rr_factor sim;
            B1' = B1 (veh sim) * rr_factor sim;
            C2' = C2 (veh sim);
            v_sq = v * v;
            F = A0' + B1' * v + C2' * v_sq
        in py_div (- F) (mass_kg (veh sim)))"

text \<open>\<^verbatim>\<open>StoppingSim._blend_w_regen\<close>.\<close>

definition blend_w_regen :: "real \<Rightarrow> real" where
  "blend_w_regen v =
     (let v_kmh = v * 3.6
      in if v_kmh \<ge> 20 then 1 else if v_kmh \<le> 8 then 0 else (v_kmh - 8) / 12)"

text \<open>The time constants chosen in \<^verbatim>\<open>_update_brake_dyn_split\<close> and, again, in the rollout.\<close>

definition tau_elec :: "real \<Rightarrow> bool \<Rightarrow> real" where
  "tau_elec v e_stronger =
     (let (tau_e_apply, tau_e_rel) = (if v * 3.6 \<ge> 15 then (0.18, 0.40) else (0.30, 0.50))
      in if e_stronger then tau_e_apply else tau_e_rel)"

definition tau_air :: "real \<Rightarrow> bool \<Rightarrow> bool \<Rightarrow> real" where
  "tau_air v is_eb a_stronger =
     (let (tau_a_apply0, tau_a_rel0) = (if v * 3.6 < 10 then (0.45, 0.75) else (0.30, 0.60));
          (tau_a_apply, tau_a_rel) = (if is_eb then (0.15, 0.45) else (tau_a_apply0, tau_a_rel0))
      in if a_stronger then tau_a_apply else tau_a_rel)"

text \<open>\<^verbatim>\<open>StoppingSim._update_brake_dyn_split\<close>: both brake shares follow their command with a lag.\<close>

definition update_brake_dyn_split ::
  "stopping_sim \<Rightarrow> real \<Rightarrow> real \<Rightarrow> bool \<Rightarrow> real \<Rightarrow> stopping_sim" where
  "update_brake_dyn_split sim a_total_cmd v is_eb dt =
     (let w = blend_w_regen v;
          a_cmd_e = a_total_cmd * w;
          a_cmd_a = a_total_cmd * (1 - w);
          e_stronger = (a_cmd_e < brk_elec sim);
          a_stronger = (a_cmd_a < brk_air sim);
          tau_e = tau_elec v e_stronger;
          tau_a = tau_air v is_eb a_stronger;
          elec = brk_elec sim + (a_cmd_e - brk_elec sim) * (dt / max (1 / 1000000) tau_e);
          air = brk_air sim + (a_cmd_a - brk_air sim) * (dt / max (1 / 1000000) tau_a)
      in sim\<lparr>brk_elec := elec, brk_air := air, brk_accel := elec + air\<rparr>)"

text \<open>\<^verbatim>\<open>StoppingSim._wsp_update\<close>: the returned brake acceleration and the updated machine.\<close>

definition wsp_update :: "stopping_sim \<Rightarrow> real \<Rightarrow> real \<Rightarrow> real \<Rightarrow> real \<times> stopping_sim" where
  "wsp_update sim v a_demand dt =
     (let a_cap = - 0.85 * scn_mu (scn sim) * 9.81;
          margin = 0.05
      in case wsp_state sim of
           WspNormal \<Rightarrow>
             if a_demand < a_cap - margin \<and> v * 3.6 > 3
             then (min a_demand (0.5 * a_cap), sim\<lparr>wsp_state := WspRelease, wsp_timer := 0.12\<rparr>)
             else (a_demand, sim)
         | WspRelease \<Rightarrow>
             let tm = wsp_timer sim - dt;
                 sim1 = sim\<lparr>wsp_timer := tm\<rparr>;
                 sim2 = (if tm \<le> 0 then sim1\<lparr>wsp_state := WspReapply, wsp_timer := 0.15\<rparr>
                         else sim1)
             in (min a_demand (0.3 * a_cap), sim2)
         | WspReapply \<Rightarrow>
             let tm = wsp_timer sim - dt;
                 sim1 = sim\<lparr>wsp_timer := tm\<rparr>;
                 sim2 = (if tm \<le> 0 then sim1\<lparr>wsp_state := WspNormal\<rparr> else sim1)
             in (min a_demand (0.8 * a_cap), sim2))"

text \<open>\<^verbatim>\<open>StoppingSim._clamp_notch\<close>.\<close>

definition clamp_notch :: "stopping_sim \<Rightarrow> int \<Rightarrow> int" where
  "clamp_notch sim n =
     (let min_notch = - int (length (forward_notch_accels (veh sim)));
          max_notch = int (length (notch_accels (veh sim))) - 2
      in max min_notch (min max_notch n))"

subsection \<open>Traction\<close>

definition torque_table :: "real list" where
  "torque_table = [0.40, 0.48, 0.56, 0.64, 0.70, 0.76, 0.82, 0.88, 0.92, 0.95, 0.98, 0.99, 1.00]"

definition power_table :: "real list" where
  "power_table = [0.10, 0.16, 0.24, 0.34, 0.45, 0.58, 0.70, 0.80, 0.88, 0.94, 0.98, 0.995, 1.00]"

definition limit_ratios_high_speed :: "real list" where
  "limit_ratios_high_speed =
     [0.05, 0.18, 0.30, 0.40, 0.50, 0.58, 0.66, 0.74, 0.80, 0.86, 0.92, 0.97, 1.00]"

definition flat_ends :: "real list" where
  "flat_ends = [5, 20, 32, 33, 33]"

definition exp_starts :: "real list" where
  "exp_starts = [30, 33, 54, 54, 54]"

definition min_factors :: "real list" where
  "min_factors = [0.0003, 0.04, 0.07, 0.14, 0.27]"

text \<open>
  The branch of \<^verbatim>\<open>compute_power_accel\<close> taken when both the force and the power rating are
  positive: torque and power limit, per-notch speed fade, conversion to an acceleration.
\<close>

definition power_accel_rated :: "stopping_sim \<Rightarrow> int \<Rightarrow> real \<Rightarrow> error + real" where
  "power_accel_rated sim notch v =
     (let fwd = forward_notch_accels (veh sim);
          n_forward0 = (if length fwd \<noteq> 0 then int (length fwd) else forward_notches (veh sim));
          n_forward = max 1 n_forward0;
          idx0 = \<bar>notch\<bar> - 1;
          idx = max 0 (min idx0 (n_forward - 1));
          (ratio_T, ratio_P) =
            (if maxSpeed_kmh (veh sim) \<ge> 200
             then let safe_idx = min idx (int (length torque_table) - 1)
                  in (torque_table ! nat safe_idx, power_table ! nat safe_idx)
             else (real_of_int (idx + 1) / real_of_int n_forward,
                   real_of_int (idx + 1) / real_of_int n_forward));
          P_max_W = P_max_kW (veh sim) * 1000;
          T_max_N = T_max_kN (veh sim) * 1000;
          v_safe = max 0.1 v;
          F_torque_limit = T_max_N * ratio_T;
          F_power_limit = (P_max_W * ratio_P) / v_safe;
          F_physics0 = min F_torque_limit F_power_limit;
          v_kmh = v * 3.6;
          limit_ratios =
            (if veh_type (veh sim) = HighSpeed then limit_ratios_high_speed
             else map (\<lambda>i. (real i + 1) / real_of_int n_forward * 1.2) [0 ..< nat n_forward]);
          safe_limit_idx = min idx (int (length limit_ratios) - 1);
          notch_max_speed = maxSpeed_kmh (veh sim) * (limit_ratios ! nat safe_limit_idx);
          (cutoff_range, min_residual) = (if idx \<le> 1 then (15, 0.05) else (40, 0.4));
          F_physics =
            (if v_kmh > notch_max_speed then F_physics0 * min_residual
             else if v_kmh > notch_max_speed - cutoff_range
             then let progress = (v_kmh - (notch_max_speed - cutoff_range)) / cutoff_range;
                      factor = 1 - progress * (1 - min_residual)
                  in F_physics0 * factor
             else F_physics0)
      in case py_div F_physics (mass_kg (veh sim)) of
           Inl e \<Rightarrow> Inl e
         | Inr a_pwr0 \<Rightarrow>
             let a_pwr1 = (if v_kmh < 5 \<and> idx \<ge> 0 then max a_pwr0 (0.15 * (ratio_T / 0.30))
                           else a_pwr0);
                 a_pwr = (if a_max (veh sim) > 0 then min a_pwr1 (a_max (veh sim)) else a_pwr1)
             in Inr a_pwr)"

text \<open>
  The fallback branch: a per-notch base acceleration faded by speed over a plateau, a linear
  decay and an exponential tail. Indexing the empty traction table raises.
\<close>

definition power_accel_fallback :: "stopping_sim \<Rightarrow> int \<Rightarrow> real \<Rightarrow> error + real" where
  "power_accel_fallback sim notch v =
     (let fwd = forward_notch_accels (veh sim);
          n_notches = int (length fwd);
          idx = max 0 (min (- notch - 1) (n_notches - 1))
      in if idx \<ge> n_notches then Inl IndexError
         else
           let base_accel = fwd ! nat idx;
               v_kmh = v * 3.6;
               max_v_kmh = max 1 (maxSpeed_kmh (veh sim));
               s_k = flat_ends ! nat (min idx (int (length flat_ends) - 1));
               e_k = exp_starts ! nat (min idx (int (length exp_starts) - 1));
               min_factor = min_factors ! nat (min idx (int (length min_factors) - 1));
               mid_factor0 = 0.35 + 0.1 * real_of_int idx;
               mid_factor = min 1 (max min_factor mid_factor0);
               factor0 =
                 (if v_kmh \<le> s_k then 1
                  else if v_kmh \<le> e_k
                  then let tt = (v_kmh - s_k) / max (1 / 1000000) (e_k - s_k)
                       in max (1 - (1 - mid_factor) * tt) min_factor
                  else let tt = (v_kmh - e_k) / max (1 / 1000000) (max_v_kmh - e_k)
                       in max ((mid_factor - min_factor) * (2.71828 powr (- 3 * tt)) + min_factor)
                            min_factor);
               factor = min 1 factor0
           in Inr (base_accel * factor))"

text \<open>\<^verbatim>\<open>StoppingSim.compute_power_accel\<close>: traction only for a negative notch.\<close>

definition compute_power_accel :: "stopping_sim \<Rightarrow> int \<Rightarrow> real \<Rightarrow> error + real" where
  "compute_power_accel sim notch v =
     (if notch \<ge> 0 then Inr 0
      else if T_max_kN (veh sim) > 0 \<and> P_max_kW (veh sim) > 0 then power_accel_rated sim notch v
      else power_accel_fallback sim notch v)"

section \<open>Commands\<close>

text \<open>
  The notch update of \<^verbatim>\<open>StoppingSim._apply_command\<close>, selected by the name of the command;
  a name that is not known changes nothing.
\<close>

definition notch_command :: "stopping_sim \<Rightarrow> cmd \<Rightarrow> stopping_sim" where
  "notch_command sim c =
     (let st = state sim;
          nm = cmd_name c;
          val = cmd_val c
      in if nm = ''stepNotch''
           then sim\<lparr>state := st\<lparr>lever_notch := clamp_notch sim (lever_notch st + val)\<rparr>\<rparr>
         else if nm = ''release''
           then sim\<lparr>state := st\<lparr>lever_notch := 0\<rparr>\<rparr>
         else if nm = ''emergencyBrake''
           then sim\<lparr>state := st\<lparr>lever_notch := notches (veh sim) - 1\<rparr>,
                    eb_used := (if st_v st > 0 then True else eb_used sim)\<rparr>
         else if nm = ''setNotch''
           then sim\<lparr>state := st\<lparr>lever_notch := clamp_notch sim val\<rparr>\<rparr>
         else if nm = ''setInternalNotch''
           then sim\<lparr>state := st\<lparr>internal_notch := clamp_notch sim val\<rparr>\<rparr>
         else sim)"

text \<open>
  The end of \<^verbatim>\<open>_apply_command\<close>: a traction notch held at standstill primes the acceleration
  filter with the traction acceleration at speed zero; an exception raised there is
  swallowed.
\<close>

definition prime_filter :: "stopping_sim \<Rightarrow> stopping_sim" where
  "prime_filter sim =
     (if lever_notch (state sim) < 0 \<and> st_v (state sim) = 0
      then (case compute_power_accel sim (lever_notch (state sim)) 0 of
              Inl e \<Rightarrow> sim
            | Inr pwr \<Rightarrow> if pwr > 0 then sim\<lparr>a_cmd_filt := pwr\<rparr> else sim)
      else sim)"

text \<open>\<^verbatim>\<open>StoppingSim._apply_command\<close>.\<close>

definition apply_command :: "stopping_sim \<Rightarrow> cmd \<Rightarrow> stopping_sim" where
  "apply_command sim c = prime_filter (notch_command sim c)"

text \<open>
  \<^verbatim>\<open>StoppingSim.queue_command\<close>. The overspeed flag is set at once; the emergency brake is
  applied at once and the brake shares and the command filter are written to the commanded
  value; a notch command at (almost) standstill is applied at once; every other command is
  appended to the queue with the command latency added.
\<close>

definition queue_command :: "stopping_sim \<Rightarrow> string \<Rightarrow> int \<Rightarrow> stopping_sim" where
  "queue_command sim nm val =
     (if nm = ''atcOverspeed''
        then sim\<lparr>state := (state sim)\<lparr>atc_overspeed := (val \<noteq> 0)\<rparr>\<rparr>
      else if nm = ''emergencyBrake''
        then
          (let sim1 = apply_command sim \<lparr>cmd_t = st_t (state sim), cmd_name = nm, cmd_val = val\<rparr>;
               st = state sim1
           in if lever_notch st = notches (veh sim1) - 1
              then
                let a_cmd_total = effective_brake_accel sim1 (lever_notch st) (st_v st);
                    w = blend_w_regen (st_v st);
                    elec = a_cmd_total * w;
                    air = a_cmd_total * (1 - w)
                in sim1\<lparr>brk_elec := elec, brk_air := air, brk_accel := elec + air,
                        a_cmd_filt := a_cmd_total\<rparr>
              else sim1)
      else
        (let speed_m_s = st_v (state sim);
             immediate_apply =
               (nm \<in> set [''stepNotch'', ''applyNotch'', ''setNotch'', ''release'']
                \<and> speed_m_s \<le> 0.05)
         in if immediate_apply
            then apply_command sim \<lparr>cmd_t = st_t (state sim), cmd_name = nm, cmd_val = val\<rparr>
            else sim\<lparr>cmd_queue := cmd_queue sim @
                   [\<lparr>cmd_t = st_t (state sim) + tau_cmd (veh sim), cmd_name = nm,
                     cmd_val = val\<rparr>]\<rparr>))"

text \<open>
  The loop at the head of \<^verbatim>\<open>step\<close>: while the queue is not empty and its first entry is
  due, pop it and apply it. Applying a command changes neither the queue nor the clock, so
  the loop runs over the queue it starts with.
\<close>

fun drain_loop :: "cmd list \<Rightarrow> stopping_sim \<Rightarrow> stopping_sim" where
  "drain_loop [] sim = sim\<lparr>cmd_queue := []\<rparr>"
| "drain_loop (c # cs) sim =
     (if cmd_t c \<le> st_t (state sim)
      then drain_loop cs (apply_command (sim\<lparr>cmd_queue := cs\<rparr>) c)
      else sim\<lparr>cmd_queue := c # cs\<rparr>)"

definition drain_queue :: "stopping_sim \<Rightarrow> stopping_sim" where
  "drain_queue sim = drain_loop (cmd_queue sim) sim"

section \<open>Time budget\<close>

definition xmin :: "xreal \<Rightarrow> real \<Rightarrow> xreal" where
  "xmin x r = (case x of PInf \<Rightarrow> Fin r | Fin y \<Rightarrow> Fin (min y r))"

text \<open>The loop of \<^verbatim>\<open>_idw_predict_time\<close> over the calibration points.\<close>

fun idw_loop ::
  "timer_policy \<Rightarrow> real \<Rightarrow> real \<Rightarrow> calib_point list \<Rightarrow> real \<times> real \<times> xreal
     \<Rightarrow> real \<times> real \<times> xreal" where
  "idw_loop tp v_kmh L_m [] acc = acc"
| "idw_loop tp v_kmh L_m (p # ps) (num, den, min_d) =
     (let eps = 1 / 1000000;
          dv = (v_kmh - cp_v p) / max eps (timer_norm_v tp);
          dL = (L_m - cp_L p) / max eps (timer_norm_L tp);
          d = sqrt (dv * dv + dL * dL);
          w = 1 / ((d + eps) powr timer_idw_power tp)
      in idw_loop tp v_kmh L_m ps (num + w * cp_t p, den + w, xmin min_d d))"

text \<open>
  \<^verbatim>\<open>_idw_predict_time\<close>; \<open>None\<close> stands for the pair (NaN, infinity) returned for an empty
  table.
\<close>

definition idw_predict_time :: "timer_policy \<Rightarrow> real \<Rightarrow> real \<Rightarrow> (real \<times> xreal) option" where
  "idw_predict_time tp v_kmh L_m =
     (if timer_calib tp = [] then None
      else let (num, den, min_d) = idw_loop tp v_kmh L_m (timer_calib tp) (0, 0, PInf)
           in Some (num / max (1 / 1000000) den, min_d))"

text \<open>\<^verbatim>\<open>_formula_time\<close>; the distance ratio divides by the distance scale.\<close>

definition formula_time :: "timer_policy \<Rightarrow> real \<Rightarrow> real \<Rightarrow> error + real" where
  "formula_time tp v0_kmh L_m =
     (case py_div L_m (timer_norm_L tp) of
        Inl e \<Rightarrow> Inl e
      | Inr q \<Rightarrow>
          let v_target = timer_v_target_kmh tp;
              r = min 1 (max 0 q);
              v0_clip = min (timer_max_effective_v_kmh tp)
                          (max (timer_min_effective_v_kmh tp) v0_kmh);
              v_eff = (1 - 0.35 * r) * v0_clip + (0.35 * r) * v_target;
              v_ms = max 0.1 (v_eff / 3.6)
          in Inr (L_m / v_ms + timer_buffer_s tp))"

text \<open>
  \<^verbatim>\<open>_compute_time_budget_auto\<close>. The infinite minimum distance belongs to the empty table
  only, which takes the first branch.
\<close>

definition compute_time_budget_auto :: "timer_policy \<Rightarrow> real \<Rightarrow> real \<Rightarrow> error + real" where
  "compute_time_budget_auto tp v_kmh L_m =
     (case formula_time tp v_kmh L_m of
        Inl e \<Rightarrow> Inl e
      | Inr t_formula \<Rightarrow>
          (case
             (case idw_predict_time tp v_kmh L_m of
                None \<Rightarrow> Inr t_formula
              | Some (t_idw, PInf) \<Rightarrow> Inr t_formula
              | Some (t_idw, Fin min_d) \<Rightarrow>
                  if min_d < timer_blend_threshold tp then Inr t_idw
                  else (case py_div min_d (timer_blend_threshold tp * 2) of
                          Inl e \<Rightarrow> Inl e
                        | Inr q \<Rightarrow>
                            let alpha = max 0 (1 - q);
                                formula_weight = max (1 - alpha) (timer_far_outlier_scale tp)
                            in Inr ((1 - formula_weight) * t_idw + formula_weight * t_formula)))
           of Inl e \<Rightarrow> Inl e
            | Inr tt \<Rightarrow> Inr (max (timer_min_s tp) (min (timer_max_s tp) tt))))"

text \<open>
  The key of the static table that is nearest to the rounded speed: \<^verbatim>\<open>min\<close> with a key
  function returns the first minimal key in the order of the dictionary.
\<close>

fun nearest_key :: "int \<Rightarrow> (int \<times> real) \<Rightarrow> (int \<times> real) list \<Rightarrow> int \<times> real" where
  "nearest_key v0_round best [] = best"
| "nearest_key v0_round best (kv # kvs) =
     nearest_key v0_round
       (if \<bar>fst kv - v0_round\<bar> < \<bar>fst best - v0_round\<bar> then kv else best) kvs"

text \<open>\<^verbatim>\<open>_compute_time_budget\<close>, for a given value of the flag \<^verbatim>\<open>state.timer_enabled\<close>.\<close>

definition compute_time_budget :: "timer_policy \<Rightarrow> scenario \<Rightarrow> bool \<Rightarrow> error + real" where
  "compute_time_budget tp sc enabled =
     (if \<not> enabled then Inr 0
      else
        let v0_kmh = scn_v0 sc * 3.6;
            L_m = scn_L sc
        in if timer_calib tp \<noteq> [] then compute_time_budget_auto tp v0_kmh L_m
           else if timer_use_table tp \<and> timer_table tp \<noteq> []
           then (case timer_table tp of
                   [] \<Rightarrow> formula_time tp v0_kmh L_m
                 | kv # kvs \<Rightarrow> Inr (snd (nearest_key (py_round v0_kmh) kv kvs)))
           else formula_time tp v0_kmh L_m)"

section \<open>Lifecycle\<close>

text \<open>
  The lever notch that \<^verbatim>\<open>reset\<close> installs: in random mode the notch stored at the last finish,
  with the emergency notch turned into the highest service notch; 0 otherwise.
\<close>

definition reset_lever_notch :: "stopping_sim \<Rightarrow> int" where
  "reset_lever_notch sim =
     (if random_mode sim
      then (let n = final_notch_on_finish sim;
                max_normal_notch = notches (veh sim) - 2
            in if n \<ge> notches (veh sim) - 1 then max_normal_notch else n)
      else 0)"

text \<open>
  \<^verbatim>\<open>StoppingSim.reset\<close>. The state is replaced by a fresh \<^verbatim>\<open>State\<close>; the lever notch is
  taken from the notch stored at the last finish in random mode (the emergency notch
  becomes the highest service notch) and is 0 otherwise; the timer flag is carried over and
  the budget computed anew.
\<close>

definition reset :: "stopping_sim \<Rightarrow> error + stopping_sim" where
  "reset sim =
     (let prev_timer_enabled = timer_enabled (state sim);
          prev_running = running sim;
          prev_lever_notch = reset_lever_notch sim;
          st0 = new_State\<lparr>lever_notch := prev_lever_notch\<rparr>;
          sim1 = sim\<lparr>planned_v0 := scn_v0 (scn sim), state := st0,
                     running := (if \<not> random_mode sim then False else prev_running),
                     cmd_queue := [],
                     first_brake_done := False, first_brake_notch := None,
                     first_brake_start_t := None, seen_zero_notch := False,
                     eb_used := False, notch_history := [], time_history := [],
                     prev_a := 0, jerk_history := [], tasc_last_change_t := 0\<rparr>;
          sim2 = (if \<not> tasc_active sim1 then sim1\<lparr>tasc_phase := Build, tasc_peak_notch := 1\<rparr>
                  else sim1);
          sim3 = sim2\<lparr>tasc_active := False, tasc_armed := tasc_enabled sim2,
                     tasc_pred_cache := \<lparr>pc_t = - 1, pc_v = - 1, pc_notch = - 1,
                                          pc_s_cur = PInf, pc_s_up = PInf, pc_s_dn = PInf\<rparr>,
                     tasc_last_pred_t := - 1, need_b5_last_t := - 1, need_b5_last := False,
                     brk_accel := 0, brk_elec := 0, brk_air := 0,
                     wsp_state := WspNormal, wsp_timer := 0, a_cmd_filt := 0, rr_factor := 1\<rparr>;
          st1 = (state sim3)\<lparr>timer_enabled := prev_timer_enabled\<rparr>
      in case (if timer_enabled st1
               then compute_time_budget (timer sim3) (scn sim3) (timer_enabled st1)
               else Inr 0) of
           Inl e \<Rightarrow> Inl e
         | Inr budget \<Rightarrow>
             Inr (sim3\<lparr>state := st1\<lparr>time_budget_s := budget, time_remaining_s := budget,
                                     time_remaining_int := \<lfloor>budget\<rfloor>, time_overrun_s := 0,
                                     time_overrun_int := 0, time_overrun_started := False\<rparr>\<rparr>))"

text \<open>\<^verbatim>\<open>StoppingSim.start\<close>.\<close>

definition start :: "stopping_sim \<Rightarrow> error + stopping_sim" where
  "start sim =
     (case reset sim of
        Inl e \<Rightarrow> Inl e
      | Inr sim1 \<Rightarrow> Inr (sim1\<lparr>state := (state sim1)\<lparr>st_v := planned_v0 sim1\<rparr>, running := True\<rparr>))"

section \<open>Stopping predictor\<close>

text \<open>The local variables of the rollout in \<^verbatim>\<open>_estimate_stop_distance\<close>.\<close>

record rollout =
  r_v :: real
  r_a :: real
  r_s :: real
  r_brk_elec :: real
  r_brk_air :: real
  r_wsp_state :: wsp
  r_wsp_timer :: real
  r_a_cmd_filt :: real

text \<open>The wheel-slip machine as the rollout repeats it on its local copies.\<close>

definition rollout_wsp :: "stopping_sim \<Rightarrow> real \<Rightarrow> real \<Rightarrow> rollout \<Rightarrow> real \<times> wsp \<times> real" where
  "rollout_wsp sim dt a_brake0 r =
     (let a_cap = - 0.85 * scn_mu (scn sim) * 9.81;
          margin = 0.05
      in case r_wsp_state r of
           WspNormal \<Rightarrow>
             if a_brake0 < a_cap - margin \<and> r_v r * 3.6 > 3
             then (min a_brake0 (0.5 * a_cap), WspRelease, 0.12)
             else (a_brake0, WspNormal, r_wsp_timer r)
         | WspRelease \<Rightarrow>
             let tm = r_wsp_timer r - dt
             in if tm \<le> 0 then (min a_brake0 (0.3 * a_cap), WspReapply, 0.15)
                else (min a_brake0 (0.3 * a_cap), WspRelease, tm)
         | WspReapply \<Rightarrow>
             let tm = r_wsp_timer r - dt
             in if tm \<le> 0 then (min a_brake0 (0.8 * a_cap), WspNormal, 0)
                else (min a_brake0 (0.8 * a_cap), WspReapply, tm))"

text \<open>One pass through the body of the rollout loop, before the two exit tests.\<close>

definition rollout_body :: "stopping_sim \<Rightarrow> int \<Rightarrow> real \<Rightarrow> rollout \<Rightarrow> error + rollout" where
  "rollout_body sim notch rem_now r =
     (let dt = 0.03; v = r_v r
      in case (if notch < 0 then compute_power_accel sim notch v else Inr 0) of
           Inl e \<Rightarrow> Inl e
         | Inr pwr_accel \<Rightarrow>
            (let is_eb = (notch = notches (veh sim) - 1);
                 a_cmd_total = effective_brake_accel sim notch v;
                 w = blend_w_regen v;
                 a_cmd_e = a_cmd_total * w;
                 a_cmd_a = a_cmd_total * (1 - w);
                 e_stronger = (a_cmd_e < r_brk_elec r);
                 a_stronger = (a_cmd_a < r_brk_air r);
                 tau_e = tau_elec v e_stronger;
                 tau_a = tau_air v is_eb a_stronger;
                 elec = r_brk_elec r + (a_cmd_e - r_brk_elec r) * (dt / max (1 / 1000000) tau_e);
                 air = r_brk_air r + (a_cmd_a - r_brk_air r) * (dt / max (1 / 1000000) tau_a);
                 (a_brake, ws, wt) = rollout_wsp sim dt (elec + air) r;
                 a_grade = grade_accel sim
             in case davis_accel sim v of
                  Inl e \<Rightarrow> Inl e
                | Inr a_davis \<Rightarrow>
                   (let a_target0 = pwr_accel + a_brake + a_grade + a_davis;
                        a_target1 = (if notch = 0 then grade_accel sim + a_davis else a_target0);
                        rem_pred = max 0 (rem_now - r_s r);
                        a_target = (if notch = 1 \<or> rem_pred \<le> 0 then min a_target1 0
                                    else a_target1);
                        filt = r_a_cmd_filt r
                                 + (a_target - r_a_cmd_filt r)
                                   * (dt / max (1 / 1000000) (tau_brk (veh sim)));
                        max_da0 = j_max (veh sim) * dt;
                        v_kmh = v * 3.6;
                        max_da = (if v_kmh \<le> 5 then max_da0 * (0.25 + 0.75 * (v_kmh / 5))
                                  else max_da0);
                        da0 = filt - r_a r;
                        da = (if da0 > max_da then max_da
                              else if da0 < - max_da then - max_da else da0);
                        a' = r_a r + da;
                        v' = max 0 (v + a' * dt);
                        s' = r_s r + (v' * dt + 0.5 * a' * dt * dt)
                    in Inr \<lparr>r_v = v', r_a = a', r_s = s', r_brk_elec = elec, r_brk_air = air,
                            r_wsp_state = ws, r_wsp_timer = wt, r_a_cmd_filt = filt\<rparr>)))"

text \<open>
  The loop \<^verbatim>\<open>for _ in range(2400)\<close>: the first argument counts the passes that are left; the
  loop is left early when the speed has fallen to 0.01 or the distance has passed the limit.
\<close>

fun rollout_loop :: "nat \<Rightarrow> stopping_sim \<Rightarrow> int \<Rightarrow> real \<Rightarrow> real \<Rightarrow> rollout \<Rightarrow> error + rollout" where
  "rollout_loop 0 sim notch rem_now limit r = Inr r"
| "rollout_loop (Suc k) sim notch rem_now limit r =
     (case rollout_body sim notch rem_now r of
        Inl e \<Rightarrow> Inl e
      | Inr r' \<Rightarrow>
          if r_v r' \<le> 0.01 then Inr r'
          else if r_s r' > limit then Inr r'
          else rollout_loop k sim notch rem_now limit r')"

text \<open>\<^verbatim>\<open>StoppingSim._estimate_stop_distance\<close>.\<close>

definition estimate_stop_distance :: "stopping_sim \<Rightarrow> int \<Rightarrow> real \<Rightarrow> error + real" where
  "estimate_stop_distance sim notch v0 =
     (let v = max 0 v0;
          r0 = \<lparr>r_v = v, r_a = st_a (state sim), r_s = 0, r_brk_elec = brk_elec sim,
                r_brk_air = brk_air sim, r_wsp_state = wsp_state sim,
                r_wsp_timer = wsp_timer sim, r_a_cmd_filt = a_cmd_filt sim\<rparr>;
          rem_now = scn_L (scn sim) - st_s (state sim);
          limit = rem_now + 8;
          ctrl_delay = max (tasc_pred_interval sim) (tasc_hold_min_s sim);
          latency_margin = v * ctrl_delay
      in case rollout_loop 2400 sim notch rem_now limit r0 of
           Inl e \<Rightarrow> Inl e
         | Inr r \<Rightarrow> Inr (r_s r + latency_margin))"

text \<open>\<^verbatim>\<open>StoppingSim._stopping_distance\<close>.\<close>

definition stopping_distance :: "stopping_sim \<Rightarrow> int \<Rightarrow> real \<Rightarrow> error + xreal" where
  "stopping_distance sim notch v =
     (if notch \<le> 0 then Inr PInf
      else case estimate_stop_distance sim notch v of Inl e \<Rightarrow> Inl e | Inr d \<Rightarrow> Inr (Fin d))"

text \<open>
  \<^verbatim>\<open>StoppingSim._tasc_predict\<close>: the cached triple is returned unless the cache is older
  than the interval, the speed has moved by the epsilon or the notch differs.
\<close>

definition tasc_predict ::
  "stopping_sim \<Rightarrow> int \<Rightarrow> real \<Rightarrow> error + ((xreal \<times> xreal \<times> xreal) \<times> stopping_sim)" where
  "tasc_predict sim cur v =
     (let st = state sim;
          c = tasc_pred_cache sim;
          need = (st_t st - tasc_last_pred_t sim \<ge> tasc_pred_interval sim
                  \<or> \<bar>v - pc_v c\<bar> \<ge> tasc_speed_eps sim
                  \<or> cur \<noteq> pc_notch c)
      in if \<not> need then Inr ((pc_s_cur c, pc_s_up c, pc_s_dn c), sim)
         else
           let max_normal_notch = notches (veh sim) - 2
           in case (if cur > 0 then stopping_distance sim cur v else Inr PInf) of
                Inl e \<Rightarrow> Inl e
              | Inr s_cur \<Rightarrow>
                 (case (if cur + 1 \<le> max_normal_notch then stopping_distance sim (cur + 1) v
                        else Inr (Fin 0)) of
                    Inl e \<Rightarrow> Inl e
                  | Inr s_up \<Rightarrow>
                     (case (if cur - 1 \<ge> 1 then stopping_distance sim (cur - 1) v
                            else Inr PInf) of
                        Inl e \<Rightarrow> Inl e
                      | Inr s_dn \<Rightarrow>
                          Inr ((s_cur, s_up, s_dn),
                               sim\<lparr>tasc_pred_cache :=
                                      \<lparr>pc_t = st_t st, pc_v = v, pc_notch = cur,
                                       pc_s_cur = s_cur, pc_s_up = s_up, pc_s_dn = s_dn\<rparr>,
                                    tasc_last_pred_t := st_t st\<rparr>))))"

section \<open>Automatic stopping controller\<close>

text \<open>\<^verbatim>\<open>StoppingSim._tasc_relax_margin_for_notch\<close>.\<close>

definition tasc_relax_margin_for_notch :: "stopping_sim \<Rightarrow> int \<Rightarrow> real" where
  "tasc_relax_margin_for_notch sim notch =
     (if notch \<ge> 6 then 3 else if notch \<ge> 5 then 2 else if notch \<ge> 4 then 1
      else tasc_relax_margin_m sim)"

text \<open>The build phase of the controller; the flag returned is \<^verbatim>\<open>changed\<close>.\<close>

definition tasc_build ::
  "stopping_sim \<Rightarrow> int \<Rightarrow> real \<Rightarrow> bool \<Rightarrow> xreal \<Rightarrow> bool \<times> stopping_sim" where
  "tasc_build sim cur rem_now dwell_ok s_cur =
     (let max_normal_notch = notches (veh sim) - 2
      in if tasc_phase sim = Build
         then (if cur < max_normal_notch \<and> xgt s_cur (rem_now - tasc_deadband_m sim)
               then (if dwell_ok
                     then let n = clamp_notch sim (cur + 1)
                          in (True,
                              sim\<lparr>state := (state sim)\<lparr>internal_notch := n\<rparr>,
                                  tasc_last_change_t := st_t (state sim),
                                  tasc_peak_notch := max (tasc_peak_notch sim) n\<rparr>)
                     else (False, sim))
               else (False, sim\<lparr>tasc_phase := Relax\<rparr>))
         else (False, sim))"

text \<open>The relax phase of the controller.\<close>

definition tasc_relax :: "stopping_sim \<Rightarrow> int \<Rightarrow> real \<Rightarrow> bool \<Rightarrow> xreal \<Rightarrow> stopping_sim" where
  "tasc_relax sim cur rem_now dwell_ok s_dn =
     (if cur > 1
      then
        let target_notch = cur - 1;
            released = sim\<lparr>state := (state sim)\<lparr>internal_notch := clamp_notch sim target_notch\<rparr>,
                           tasc_last_change_t := st_t (state sim)\<rparr>
        in if cur \<ge> test_notch
           then
             let margin = tasc_relax_margin_for_notch sim cur;
                 relax_allowed = xle s_dn (rem_now + tasc_deadband_m sim - margin);
                 time_since_change = st_t (state sim) - tasc_last_change_t sim
             in if relax_allowed \<and> dwell_ok \<and> time_since_change \<ge> tasc_relax_hold_s sim
                then released else sim
           else if xle s_dn (rem_now + tasc_deadband_m sim) \<and> dwell_ok then released else sim
      else sim)"

text \<open>The handoff: an armed controller becomes active at the takeover distance.\<close>

definition tasc_takeover :: "stopping_sim \<Rightarrow> stopping_sim" where
  "tasc_takeover sim =
     (let st = state sim;
          rem_now = scn_L (scn sim) - st_s st
      in if tasc_armed sim \<and> \<not> tasc_active sim
            \<and> rem_now \<le> tasc_takeover_rem_m sim + tasc_takeover_hyst_m sim
         then sim\<lparr>tasc_active := True, tasc_armed := False, tasc_last_change_t := st_t st\<rparr>
         else sim)"

text \<open>
  The notch decision of an active controller from the predicted distances: the build
  phase, then, in the same tick, the relax phase unless the notch has just been raised.
\<close>

definition tasc_adjust ::
  "stopping_sim \<Rightarrow> int \<Rightarrow> real \<Rightarrow> bool \<Rightarrow> xreal \<times> xreal \<times> xreal \<Rightarrow> stopping_sim" where
  "tasc_adjust sim cur rem_now dwell_ok pred =
     (let (s_cur, s_up, s_dn) = pred;
          (changed, sim3) = tasc_build sim cur rem_now dwell_ok s_cur
      in if tasc_phase sim3 = Relax \<and> \<not> changed
         then tasc_relax sim3 cur rem_now dwell_ok s_dn
         else sim3)"

text \<open>The controller block of \<^verbatim>\<open>step\<close>.\<close>

definition tasc_update :: "stopping_sim \<Rightarrow> error + stopping_sim" where
  "tasc_update sim =
     (if tasc_enabled sim \<and> \<not> finished (state sim)
      then
        let st = state sim;
            dwell_ok = (st_t st - tasc_last_change_t sim \<ge> tasc_hold_min_s sim);
            rem_now = scn_L (scn sim) - st_s st;
            cur = internal_notch st;
            sim1 = tasc_takeover sim
        in if tasc_active sim1
           then (if \<not> first_brake_done sim1 then Inr (sim1\<lparr>first_brake_done := True\<rparr>)
                 else case tasc_predict sim1 cur (st_v st) of
                        Inl e \<Rightarrow> Inl e
                      | Inr (pred, sim2) \<Rightarrow> Inr (tasc_adjust sim2 cur rem_now dwell_ok pred))
           else Inr sim1
      else Inr sim)"

section \<open>Run evaluation: the staircase classifier\<close>

text \<open>
  \<^verbatim>\<open>StoppingSim.remove_adjacent_duplicates\<close>: the result starts as \<^verbatim>\<open>[lst[0]]\<close> and every
  later element is appended when it differs from the last element of the result.
\<close>

fun rad_loop :: "int list \<Rightarrow> int list \<Rightarrow> int list" where
  "rad_loop result [] = result"
| "rad_loop result (x # xs) = rad_loop (if x \<noteq> last result then result @ [x] else result) xs"

definition remove_adjacent_duplicates :: "int list \<Rightarrow> int list" where
  "remove_adjacent_duplicates lst = (case lst of [] \<Rightarrow> [] | x # xs \<Rightarrow> rad_loop [x] xs)"

text \<open>
  \<^verbatim>\<open>StoppingSim.remove_negative_values\<close>: the index runs from \<^verbatim>\<open>len - 1\<close> down to 0; at the
  first negative entry the slice behind it is returned; without one the list itself.
  The first argument of the loop is the number of indices still to visit.
\<close>

fun rnv_loop :: "nat \<Rightarrow> int list \<Rightarrow> int list" where
  "rnv_loop 0 ns = ns"
| "rnv_loop (Suc i) ns =
     (if ns ! i < 0 then drop (Suc i) ns else rnv_loop i ns)"

definition remove_negative_values :: "int list \<Rightarrow> int list" where
  "remove_negative_values ns = rnv_loop (length ns) ns"

text \<open>
  The loop of \<^verbatim>\<open>StoppingSim.is_stair_pattern\<close> over \<^verbatim>\<open>notches[1:]\<close>, with the flag
  \<^verbatim>\<open>peak_reached\<close> and the previous entry; \<open>False\<close> is the early \<^verbatim>\<open>return False\<close>.
\<close>

fun stair_loop :: "bool \<Rightarrow> int \<Rightarrow> int list \<Rightarrow> bool" where
  "stair_loop peak_reached prev [] = True"
| "stair_loop peak_reached prev (cur # rest) =
     (if \<not> peak_reached then
        (if cur < prev then stair_loop True cur rest else stair_loop False cur rest)
      else if cur > prev then False
      else stair_loop True cur rest)"

definition is_stair_pattern :: "int list \<Rightarrow> bool" where
  "is_stair_pattern ns0 =
     (let ns1 = remove_adjacent_duplicates ns0;
          ns = remove_negative_values ns1
      in if length ns < 5 then False
         else (case ns of
                 [] \<Rightarrow> False
               | prev # rest \<Rightarrow>
                   if \<not> stair_loop False prev rest then False
                   else if last ns \<notin> {1, 2} then False
                   else True))"

section \<open>Run evaluation: jerk score and final score\<close>

text \<open>The slice \<^verbatim>\<open>xs[k:]\<close>: a negative start counts from the end and is cut at the front.\<close>

definition py_slice_from :: "int \<Rightarrow> 'a list \<Rightarrow> 'a list" where
  "py_slice_from k xs =
     (if k < 0 then drop (nat (int (length xs) + k)) xs else drop (nat k) xs)"

text \<open>
  The window of \<^verbatim>\<open>compute_jerk_score\<close>: the last \<^verbatim>\<open>n\<close> samples of the jerk history, for
  \<^verbatim>\<open>n = int(window_time / dt)\<close>, or the whole history when it is shorter. The argument
  \<open>q\<close> is the quotient \<^verbatim>\<open>window_time / dt\<close>.
\<close>

definition jerk_window :: "real \<Rightarrow> real list \<Rightarrow> real list" where
  "jerk_window q history =
     (let n = py_int q
      in if int (length history) \<ge> n then py_slice_from (- n) history else history)"

text \<open>
  The rest of \<^verbatim>\<open>compute_jerk_score\<close>, on the samples of the window: the pair of the
  adjusted jerk and the jerk score.
\<close>

definition jerk_score_of :: "real list \<Rightarrow> real \<times> real" where
  "jerk_score_of recent_jerks =
     (if recent_jerks = [] then (0, 0)
      else
        let avg_jerk = sum_list recent_jerks / real (length recent_jerks);
            high_jerk_count = length (filter (\<lambda>j. j > 30) recent_jerks);
            penalty_factor = min 1 (real high_jerk_count / 10);
            adjusted_jerk = avg_jerk * (1 + penalty_factor)
        in if adjusted_jerk \<le> 10 then (adjusted_jerk, 0)
           else
             let low_bound = 21.6;
                 high_bound = 24
             in if adjusted_jerk \<le> low_bound then (adjusted_jerk, 500)
                else if adjusted_jerk \<le> high_bound
                then (adjusted_jerk,
                      500 * (high_bound - adjusted_jerk) / (high_bound - low_bound))
                else (adjusted_jerk, 0))"

text \<open>
  \<^verbatim>\<open>StoppingSim.compute_jerk_score\<close>, on the time step and the jerk history; the window
  length divides by the time step.
\<close>

definition compute_jerk_score :: "real \<Rightarrow> real list \<Rightarrow> error + (real \<times> real)" where
  "compute_jerk_score dt history =
     (case py_div 1 dt of
        Inl e \<Rightarrow> Inl e
      | Inr q \<Rightarrow> Inr (jerk_score_of (jerk_window q history)))"

text \<open>
  The end of the scoring block of \<^verbatim>\<open>step\<close>: the raw score is clamped to the band from
  \<^verbatim>\<open>minq\<close> to \<^verbatim>\<open>maxq\<close>, rescaled to a percentage and rounded.
\<close>

definition normalize_score :: "int \<Rightarrow> real" where
  "normalize_score raw =
     (let minq = 300;
          maxq = 1200;
          sc1 = (if raw < minq then minq else raw);
          sc2 = (if sc1 > maxq then maxq else sc1);
          norm0 = real_of_int (sc2 - minq) / real_of_int (maxq - minq) * 100;
          norm = max 0 (min 100 norm0)
      in of_int (py_round norm))"

text \<open>The notch that the comfort rule of the scoring block looks at.\<close>

definition final_last_notch :: "stopping_sim \<Rightarrow> real \<Rightarrow> int" where
  "final_last_notch sim err =
     (if notch_history sim \<noteq> [] \<and> \<bar>err\<bar> \<le> 1 then last (notch_history sim) else 0)"

text \<open>The comfort rule: a bonus for a final notch of 0, 1 or 2, a penalty otherwise.\<close>

definition comfort_delta :: "int \<Rightarrow> int" where
  "comfort_delta last_notch = (if last_notch \<in> {0, 1, 2} then 300 else - 100)"

text \<open>
  The raw score of the scoring block, before the clamp, for the stop error and the jerk
  score of the run.
\<close>

definition raw_score :: "stopping_sim \<Rightarrow> real \<Rightarrow> real \<Rightarrow> int" where
  "raw_score sim err jerk_score =
     (let sc0 = 0;
          sc1 = (if eb_used sim then sc0 - 500 else sc0);
          sc2 = (if \<not> first_brake_done sim then sc1 - 100 else sc1 + 300);
          last_notch = final_last_notch sim err;
          sc3 = sc2 + comfort_delta last_notch;
          sc4 = (if is_stair_pattern (notch_history sim) then sc3 + 300
                 else if tasc_enabled sim \<and> \<not> manual_override sim then sc3 + 300 else sc3);
          err_abs = \<bar>err\<bar>;
          error_score = max 0 (500 - py_int (err_abs / 2 * 500));
          sc5 = sc4 + error_score;
          sc6 = (if \<bar>err\<bar> < 0.01 then sc5 + 500 else sc5);
          sc7 = sc6 + py_int jerk_score
      in if run_over sim then sc7 - 1000 else sc7)"

text \<open>The \<^verbatim>\<open>issues\<close> dictionary written by the scoring block.\<close>

definition finish_issues :: "stopping_sim \<Rightarrow> real \<Rightarrow> (string \<rightharpoonup> issue_value)" where
  "finish_issues sim err =
     (let i0 = Map.empty;
          i1 = (if eb_used sim then i0(''unnecessary_eb_usage'' \<mapsto> IBool True) else i0);
          last_notch = final_last_notch sim err;
          i2 = (if last_notch \<in> {0, 1, 2}
                then i1(''stop_not_b1'' \<mapsto> IBool False, ''stop_not_b1_msg'' \<mapsto> IMsg ComfortGood)
                else i1(''stop_not_b1'' \<mapsto> IBool True, ''stop_not_b1_msg'' \<mapsto> IMsg ComfortBad))
      in i2(''early_brake_too_short'' \<mapsto> IBool (\<not> first_brake_done sim),
            ''step_brake_incomplete'' \<mapsto> IBool (\<not> is_stair_pattern (notch_history sim)),
            ''stop_error_m'' \<mapsto> IReal err))"

text \<open>
  The scoring block of \<^verbatim>\<open>step\<close>, entered once when the run is complete. The jerk sample of
  the last tick is appended to the jerk history here, and nowhere else.
\<close>

definition finish_run :: "stopping_sim \<Rightarrow> error + stopping_sim" where
  "finish_run sim =
     (let st = state sim;
          dt = scn_dt (scn sim);
          err = scn_L (scn sim) - st_s st
      in case py_div (st_a st - prev_a sim) dt of
           Inl e \<Rightarrow> Inl e
         | Inr q \<Rightarrow>
            (let jerk = \<bar>q\<bar>;
                 sim1 = sim\<lparr>prev_a := st_a st, jerk_history := jerk_history sim @ [jerk]\<rparr>
             in case compute_jerk_score dt (jerk_history sim1) of
                  Inl e \<Rightarrow> Inl e
                | Inr (avg_jerk, jerk_score) \<Rightarrow>
                   (let st1 = st\<lparr>finished := True, stop_error_m := Some err,
                                  residual_speed_kmh := Some (st_v st * 3.6),
                                  issues := Some (finish_issues sim err),
                                  score := Some (normalize_score (raw_score sim err jerk_score))\<rparr>;
                        sim2 = sim1\<lparr>state := st1, final_notch_on_finish := lever_notch st\<rparr>;
                        sim3 = (if random_mode sim2 \<and> tasc_enabled_initially sim2
                                then sim2\<lparr>tasc_enabled := True, tasc_armed := True,
                                          tasc_active := False, tasc_phase := Build,
                                          tasc_peak_notch := 1\<rparr>
                                else sim2)
                    in Inr (if \<not> random_mode sim3 then sim3\<lparr>running := False\<rparr> else sim3))))"

text \<open>The completion test at the end of \<^verbatim>\<open>step\<close>.\<close>

definition finish_check :: "stopping_sim \<Rightarrow> error + stopping_sim" where
  "finish_check sim =
     (let st = state sim;
          rem = scn_L (scn sim) - st_s st
      in if \<not> finished st \<and> (rem \<le> - 5 \<or> (rem \<le> 1 \<and> st_v st \<le> 0)) then finish_run sim
         else Inr sim)"

section \<open>The simulation tick\<close>

text \<open>The notch history takes the lever notch of a tick only while the train moves.\<close>

definition record_history :: "stopping_sim \<Rightarrow> stopping_sim" where
  "record_history sim =
     (let sim1 = (if st_v (state sim) > 0.1
                  then sim\<lparr>notch_history := notch_history sim @ [lever_notch (state sim)]\<rparr>
                  else sim)
      in sim1\<lparr>time_history := time_history sim1 @ [st_t (state sim1)]\<rparr>)"

text \<open>
  The judgement of the initial brake application: a dwell of one second on notch 1 or 2,
  entered from notch 0, before the controller is active.
\<close>

definition first_brake_update :: "stopping_sim \<Rightarrow> error + stopping_sim" where
  "first_brake_update sim0 =
     (let sim = (if \<not> seen_zero_notch sim0 \<and> lever_notch (state sim0) = 0
                 then sim0\<lparr>seen_zero_notch := True\<rparr> else sim0);
          st = state sim
      in if \<not> first_brake_done sim \<and> seen_zero_notch sim \<and> \<not> tasc_active sim
         then
           let cur = lever_notch st;
               hist = notch_history sim;
               prev = (if length hist \<ge> 2 then Some (hist ! (length hist - 2)) else None)
           in case first_brake_notch sim of
                None \<Rightarrow>
                  if prev = Some 0 \<and> cur \<in> {1, 2}
                  then Inr (sim\<lparr>first_brake_notch := Some cur, first_brake_start_t := Some (st_t st)\<rparr>)
                  else Inr sim
              | Some fb \<Rightarrow>
                  if cur = fb
                  then (case first_brake_start_t sim of
                          None \<Rightarrow> Inl TypeError
                        | Some t0 \<Rightarrow>
                            if st_t st - t0 \<ge> 0.999 then Inr (sim\<lparr>first_brake_done := True\<rparr>)
                            else Inr sim)
                  else Inr (sim\<lparr>first_brake_notch := None, first_brake_start_t := None\<rparr>)
         else Inr sim)"

text \<open>The countdown timer of a tick.\<close>

definition timer_update :: "stopping_sim \<Rightarrow> stopping_sim" where
  "timer_update sim =
     (let st = state sim;
          dt = scn_dt (scn sim)
      in if timer_enabled st \<and> \<not> finished st
         then
           let rem_s = time_remaining_s st - dt;
               st1 = st\<lparr>time_remaining_s := rem_s, time_remaining_int := py_int rem_s\<rparr>;
               st2 = (if rem_s < 0 \<and> \<not> time_overrun_started st1
                      then st1\<lparr>time_overrun_s := - rem_s,
                               time_overrun_int := \<bar>time_remaining_int st1\<bar>,
                               time_overrun_started := True,
                               issues := Some ((case issues st1 of None \<Rightarrow> Map.empty | Some m \<Rightarrow> m)
                                                 (''timeout_started'' \<mapsto> IBool True))\<rparr>
                      else st1)
           in sim\<lparr>state := st2\<rparr>
         else sim)"

text \<open>
  The second half of the dynamics block of \<^verbatim>\<open>step\<close>, from the summed target acceleration:
  a braking notch never accelerates, the command filter, the jerk limiter (relaxed at low
  speed under braking) and the integration of speed, position and time.
\<close>

definition integrate :: "stopping_sim \<Rightarrow> int \<Rightarrow> real \<Rightarrow> stopping_sim" where
  "integrate sim effective_notch a_target0 =
     (let st = state sim;
          dt = scn_dt (scn sim);
          v_kmh = st_v st * 3.6;
          a_target = (if effective_notch \<ge> 1 then min a_target0 0 else a_target0);
          tau_inv = dt / max (1 / 1000000) (tau_brk (veh sim));
          filt = a_cmd_filt sim + (a_target - a_cmd_filt sim) * tau_inv;
          max_da0 = j_max (veh sim) * dt;
          max_da = (if v_kmh \<le> 5 \<and> effective_notch \<ge> 1
                    then max_da0 * (0.25 + 0.75 * (v_kmh / 5)) else max_da0);
          da0 = filt - st_a st;
          da = (if da0 > max_da then max_da
                else if da0 < - max_da then - max_da else da0);
          a' = st_a st + da;
          v' = max 0 (st_v st + a' * dt);
          s' = st_s st + (v' * dt + 0.5 * a' * dt * dt)
      in sim\<lparr>a_cmd_filt := filt,
              state := st\<lparr>st_a := a', st_v := v', st_s := s', st_t := st_t st + dt\<rparr>\<rparr>)"

text \<open>
  The traction term of the dynamics block: the notch given to the traction model is the
  higher of the lever notch and the internal notch when the overspeed flag is set, and the
  lever notch otherwise.
\<close>

definition traction_term :: "stopping_sim \<Rightarrow> error + real" where
  "traction_term sim =
     (let st = state sim;
          effective_notch = max (lever_notch st) (internal_notch st)
      in if atc_overspeed st then compute_power_accel sim effective_notch (st_v st)
         else compute_power_accel sim (lever_notch st) (st_v st))"

text \<open>
  The braking term of the dynamics block: the brake command of the effective notch, the
  lag of the two brake shares and the wheel-slip protection; the result is the brake
  acceleration and the simulator with the updated brake state.
\<close>

definition brake_stage :: "stopping_sim \<Rightarrow> real \<times> stopping_sim" where
  "brake_stage sim =
     (let st = state sim;
          dt = scn_dt (scn sim);
          effective_notch = max (lever_notch st) (internal_notch st);
          a_cmd_brake = effective_brake_accel sim effective_notch (st_v st);
          is_eb = (effective_notch = notches (veh sim) - 1);
          sim1 = update_brake_dyn_split sim a_cmd_brake (st_v st) is_eb dt
      in wsp_update sim1 (st_v st) (brk_accel sim1) dt)"

text \<open>
  The dynamics block of \<^verbatim>\<open>step\<close>: traction, braking, grade and running resistance summed
  to the target acceleration, then the filter, the limiter and the integration.
\<close>

definition dynamics :: "stopping_sim \<Rightarrow> error + stopping_sim" where
  "dynamics sim =
     (let st = state sim;
          effective_notch = max (lever_notch st) (internal_notch st)
      in case traction_term sim of
           Inl e \<Rightarrow> Inl e
         | Inr pwr_accel \<Rightarrow>
            (let (a_brake, sim2) = brake_stage sim;
                 a_grade = grade_accel sim2
             in case davis_accel sim2 (st_v st) of
                  Inl e \<Rightarrow> Inl e
                | Inr a_davis \<Rightarrow>
                    Inr (integrate sim2 effective_notch (pwr_accel + a_brake + a_grade + a_davis))))"

text \<open>
  \<^verbatim>\<open>StoppingSim.step\<close>: due commands, history, the freeze of a finished run, the first-brake
  judgement, the timer, the controller, the dynamics and the completion test.
\<close>

definition step :: "stopping_sim \<Rightarrow> error + stopping_sim" where
  "step sim =
     (let sim1 = record_history (drain_queue sim)
      in if finished (state sim1)
         then Inr (sim1\<lparr>state := (state sim1)\<lparr>st_a := 0, st_v := max 0 (st_v (state sim1))\<rparr>\<rparr>)
         else case first_brake_update sim1 of
                Inl e \<Rightarrow> Inl e
              | Inr sim2 \<Rightarrow>
                 (case tasc_update (timer_update sim2) of
                    Inl e \<Rightarrow> Inl e
                  | Inr sim3 \<Rightarrow>
                     (case dynamics sim3 of
                        Inl e \<Rightarrow> Inl e
                      | Inr sim4 \<Rightarrow> finish_check sim4)))"

section \<open>Construction\<close>

text \<open>
  The vehicle that \<^verbatim>\<open>Vehicle.from_json\<close> builds from an empty configuration record: the
  defaults of every field, a mass of 200 t, and the resistance coefficients that
  \<^verbatim>\<open>recompute_davis\<close> derives from that mass for the standard class. The braking table is
  reversed and \<^verbatim>\<open>notches\<close> is set to its length, as the session start does.
\<close>

definition default_vehicle :: vehicle where
  "default_vehicle =
     \<lparr> a_max = 1, j_max = 0.8, notches = 9,
       notch_accels = [0, - 0.20, - 0.35, - 0.50, - 0.65, - 0.80, - 0.95, - 1.10, - 1.5],
       tau_cmd = 0.15, tau_brk = 0.25, mass_kg = 200000, maxSpeed_kmh = 140,
       forward_notches = 5, forward_notch_accels = [0.250, 0.287, 0.378, 0.515, 0.694],
       T_max_kN = 0, P_max_kW = 0, veh_type = Standard, A0 = 3335.4, B1 = 40,
       C2 = 6.400625 \<rparr>"

text \<open>The defaults of the \<^verbatim>\<open>Scenario\<close> dataclass.\<close>

definition default_scenario :: scenario where
  "default_scenario = \<lparr> scn_L = 500, scn_v0 = 25, grade_percent = 0, scn_mu = 1, scn_dt = 0.005 \<rparr>"

text \<open>The timer policy set up by \<^verbatim>\<open>StoppingSim.__init__\<close>.\<close>

definition init_timer :: timer_policy where
  "init_timer =
     \<lparr> timer_use_table = False, timer_table = [], timer_v_target_kmh = 70,
       timer_buffer_s = 60,
       timer_calib = [\<lparr>cp_v = 40, cp_L = 150, cp_t = 27\<rparr>, \<lparr>cp_v = 60, cp_L = 200, cp_t = 28\<rparr>,
                      \<lparr>cp_v = 70, cp_L = 300, cp_t = 32\<rparr>, \<lparr>cp_v = 90, cp_L = 500, cp_t = 40\<rparr>,
                      \<lparr>cp_v = 130, cp_L = 900, cp_t = 49\<rparr>],
       timer_idw_power = 2, timer_norm_v = 100, timer_norm_L = 300,
       timer_blend_threshold = 1.5, timer_min_s = 5, timer_max_s = 300,
       timer_min_effective_v_kmh = 12, timer_max_effective_v_kmh = 110,
       timer_far_outlier_scale = 0.35 \<rparr>"

text \<open>\<^verbatim>\<open>StoppingSim.__init__\<close>.\<close>

definition init_sim :: "vehicle \<Rightarrow> scenario \<Rightarrow> stopping_sim" where
  "init_sim vh sc =
     \<lparr> veh = vh, scn = sc, state = new_State\<lparr>st_v := scn_v0 sc\<rparr>,
       planned_v0 = scn_v0 sc, tasc_takeover_rem_m = 250, tasc_takeover_hyst_m = 1,
       running = False, random_mode = False, final_notch_on_finish = 0, cmd_queue = [],
       first_brake_done = False, first_brake_notch = None, first_brake_start_t = None,
       seen_zero_notch = False, notch_history = [], time_history = [], eb_used = False,
       run_over = False, prev_a = 0, jerk_history = [], tasc_enabled = False,
       tasc_enabled_initially = False, manual_override = False, tasc_deadband_m = 0.05,
       tasc_hold_min_s = 0.05, tasc_last_change_t = 0, tasc_phase = Build,
       tasc_peak_notch = 1, tasc_armed = False, tasc_active = False,
       tasc_relax_margin_m = 0, tasc_relax_hold_s = 0, rr_factor = 1,
       tasc_pred_cache = \<lparr>pc_t = - 1, pc_v = - 1, pc_notch = - 1,
                           pc_s_cur = PInf, pc_s_up = PInf, pc_s_dn = PInf\<rparr>,
       tasc_pred_interval = 0.1, tasc_last_pred_t = - 1, tasc_speed_eps = 0.5,
       need_b5_last_t = - 1, need_b5_last = False, brk_accel = 0, brk_elec = 0, brk_air = 0,
       wsp_state = WspNormal, wsp_timer = 0, a_cmd_filt = 0, timer = init_timer \<rparr>"

text \<open>The simulator of a session with the default vehicle and scenario.\<close>

definition default_sim :: stopping_sim where
  "default_sim = init_sim default_vehicle default_scenario"


text \<open>
  The conditions under which no division of a tick has a zero divisor, the traction table
  can be indexed and the first-brake dwell has its start time.
\<close>

definition tick_ready :: "stopping_sim \<Rightarrow> bool" where
  "tick_ready sim \<longleftrightarrow>
     mass_kg (veh sim) \<noteq> 0 \<and> scn_dt (scn sim) \<noteq> 0 \<and> forward_notch_accels (veh sim) \<noteq> []
     \<and> (first_brake_notch sim \<noteq> None \<longrightarrow> first_brake_start_t sim \<noteq> None)"


section \<open>Concrete simulators\<close>

text \<open>The default simulator with the controller enabled and active, one second into a run.\<close>

definition tasc_active_sim :: stopping_sim where
  "tasc_active_sim =
     default_sim\<lparr>state := (state default_sim)\<lparr>st_t := 1\<rparr>, tasc_enabled := True,
                 tasc_active := True, first_brake_done := True\<rparr>"

text \<open>The same after the command that sets the internal notch to a traction stage.\<close>

definition negative_internal_sim :: stopping_sim where
  "negative_internal_sim =
     apply_command tasc_active_sim \<lparr>cmd_t = 1, cmd_name = ''setInternalNotch'', cmd_val = - 3\<rparr>"

text \<open>The active controller with a fresh cached prediction for notch 0.\<close>

definition cached_prediction_sim :: stopping_sim where
  "cached_prediction_sim =
     tasc_active_sim\<lparr>tasc_last_pred_t := 1,
                     tasc_pred_cache := \<lparr>pc_t = 1, pc_v = 25, pc_notch = 0, pc_s_cur = PInf,
                                          pc_s_up = Fin 600, pc_s_dn = PInf\<rparr>\<rparr>"



text \<open>The default simulator with the controller holding notch 3 and the lever in neutral.\<close>

definition internal_brake_sim :: stopping_sim where
  "internal_brake_sim = default_sim\<lparr>state := (state default_sim)\<lparr>internal_notch := 3\<rparr>\<rparr>"


section \<open>Properties\<close>

subsection \<open>What each phase of a tick leaves unchanged\<close>

lemma notch_command_frame:
  "finished (state (notch_command sim c)) = finished (state sim)"
  "st_v (state (notch_command sim c)) = st_v (state sim)"
  "st_t (state (notch_command sim c)) = st_t (state sim)"
  "st_s (state (notch_command sim c)) = st_s (state sim)"
  "cmd_queue (notch_command sim c) = cmd_queue sim"
  "veh (notch_command sim c) = veh sim"
  "scn (notch_command sim c) = scn sim"
  by (simp_all add: notch_command_def Let_def)

lemma prime_filter_frame:
  "state (prime_filter sim) = state sim"
  "cmd_queue (prime_filter sim) = cmd_queue sim"
  "veh (prime_filter sim) = veh sim"
  "scn (prime_filter sim) = scn sim"
  by (simp_all add: prime_filter_def split: sum.splits)

lemma apply_command_frame:
  "finished (state (apply_command sim c)) = finished (state sim)"
  "st_v (state (apply_command sim c)) = st_v (state sim)"
  "st_t (state (apply_command sim c)) = st_t (state sim)"
  "st_s (state (apply_command sim c)) = st_s (state sim)"
  "cmd_queue (apply_command sim c) = cmd_queue sim"
  "veh (apply_command sim c) = veh sim"
  "scn (apply_command sim c) = scn sim"
  by (simp_all add: apply_command_def prime_filter_frame notch_command_frame)

lemma drain_loop_frame:
  "finished (state (drain_loop q sim)) = finished (state sim)
   \<and> st_v (state (drain_loop q sim)) = st_v (state sim)
   \<and> st_t (state (drain_loop q sim)) = st_t (state sim)
   \<and> st_s (state (drain_loop q sim)) = st_s (state sim)
   \<and> veh (drain_loop q sim) = veh sim \<and> scn (drain_loop q sim) = scn sim"
  by (induction q arbitrary: sim) (simp_all add: apply_command_frame)

lemma record_history_frame:
  "state (record_history sim) = state sim"
  "veh (record_history sim) = veh sim"
  "scn (record_history sim) = scn sim"
  by (simp_all add: record_history_def Let_def)

lemma first_brake_update_frame:
  "first_brake_update sim = Inr sim' \<Longrightarrow>
     state sim' = state sim \<and> veh sim' = veh sim \<and> scn sim' = scn sim"
  by (auto simp: first_brake_update_def Let_def split: if_splits option.splits)

lemma timer_update_frame:
  "finished (state (timer_update sim)) = finished (state sim)"
  "st_v (state (timer_update sim)) = st_v (state sim)"
  "veh (timer_update sim) = veh sim" "scn (timer_update sim) = scn sim"
  by (simp_all add: timer_update_def Let_def)

lemma tasc_predict_frame:
  "tasc_predict sim cur v = Inr (x, sim') \<Longrightarrow>
     state sim' = state sim \<and> veh sim' = veh sim \<and> scn sim' = scn sim"
  by (auto simp: tasc_predict_def Let_def split: if_splits sum.splits)

lemma tasc_build_frame:
  "finished (state (snd (tasc_build sim cur rem dw sc))) = finished (state sim)"
  "st_v (state (snd (tasc_build sim cur rem dw sc))) = st_v (state sim)"
  "veh (snd (tasc_build sim cur rem dw sc)) = veh sim"
  "scn (snd (tasc_build sim cur rem dw sc)) = scn sim"
  by (simp_all add: tasc_build_def Let_def)

lemma tasc_relax_frame:
  "finished (state (tasc_relax sim cur rem dw sd)) = finished (state sim)"
  "st_v (state (tasc_relax sim cur rem dw sd)) = st_v (state sim)"
  "veh (tasc_relax sim cur rem dw sd) = veh sim"
  "scn (tasc_relax sim cur rem dw sd) = scn sim"
  by (simp_all add: tasc_relax_def Let_def)

lemma tasc_takeover_frame:
  "state (tasc_takeover sim) = state sim"
  "veh (tasc_takeover sim) = veh sim"
  "scn (tasc_takeover sim) = scn sim"
  by (simp_all add: tasc_takeover_def Let_def)

lemma tasc_adjust_frame:
  "finished (state (tasc_adjust sim cur rem dw pred)) = finished (state sim)"
  "st_v (state (tasc_adjust sim cur rem dw pred)) = st_v (state sim)"
  "veh (tasc_adjust sim cur rem dw pred) = veh sim"
  "scn (tasc_adjust sim cur rem dw pred) = scn sim"
  by (simp_all add: tasc_adjust_def Let_def case_prod_beta tasc_relax_frame tasc_build_frame)

lemma tasc_update_frame:
  assumes "tasc_update sim = Inr sim'"
  shows "finished (state sim') = finished (state sim) \<and> st_v (state sim') = st_v (state sim)
     \<and> veh sim' = veh sim \<and> scn sim' = scn sim"
  using assms
  by (auto simp: tasc_update_def Let_def tasc_takeover_frame tasc_adjust_frame
      split: if_splits sum.splits dest!: tasc_predict_frame)

lemma update_brake_dyn_split_frame:
  "state (update_brake_dyn_split sim c v e dt) = state sim"
  "veh (update_brake_dyn_split sim c v e dt) = veh sim"
  "scn (update_brake_dyn_split sim c v e dt) = scn sim"
  "rr_factor (update_brake_dyn_split sim c v e dt) = rr_factor sim"
  "a_cmd_filt (update_brake_dyn_split sim c v e dt) = a_cmd_filt sim"
  by (simp_all add: update_brake_dyn_split_def Let_def)

lemma wsp_update_frame:
  "state (snd (wsp_update sim v a dt)) = state sim"
  "veh (snd (wsp_update sim v a dt)) = veh sim"
  "scn (snd (wsp_update sim v a dt)) = scn sim"
  "rr_factor (snd (wsp_update sim v a dt)) = rr_factor sim"
  "a_cmd_filt (snd (wsp_update sim v a dt)) = a_cmd_filt sim"
  by (simp_all add: wsp_update_def Let_def split: wsp.splits split del: if_split) simp_all

lemma integrate_frame:
  "finished (state (integrate sim n a)) = finished (state sim)"
  "0 \<le> st_v (state (integrate sim n a))"
  "veh (integrate sim n a) = veh sim"
  "scn (integrate sim n a) = scn sim"
  by (simp_all add: integrate_def Let_def split del: if_split)

lemma brake_stage_frame:
  "state (snd (brake_stage sim)) = state sim"
  "veh (snd (brake_stage sim)) = veh sim"
  "scn (snd (brake_stage sim)) = scn sim"
  "rr_factor (snd (brake_stage sim)) = rr_factor sim"
  "a_cmd_filt (snd (brake_stage sim)) = a_cmd_filt sim"
  by (simp_all add: brake_stage_def Let_def wsp_update_frame update_brake_dyn_split_frame)

lemma dynamics_frame:
  assumes "dynamics sim = Inr sim'"
  shows "finished (state sim') = finished (state sim) \<and> 0 \<le> st_v (state sim')
     \<and> veh sim' = veh sim \<and> scn sim' = scn sim"
  using assms unfolding dynamics_def Let_def case_prod_beta
  by (auto split: sum.splits simp: integrate_frame brake_stage_frame)




lemma history_first_brake:
  "first_brake_update sim = Inr sim' \<Longrightarrow> notch_history sim' = notch_history sim"
  by (auto simp: first_brake_update_def Let_def split: if_splits option.splits)

lemma history_timer: "notch_history (timer_update sim) = notch_history sim"
  by (simp add: timer_update_def Let_def)

lemma history_tasc_parts:
  "notch_history (tasc_takeover sim) = notch_history sim"
  "notch_history (snd (tasc_build sim cur rem dw sc)) = notch_history sim"
  "notch_history (tasc_relax sim cur rem dw sd) = notch_history sim"
  by (simp_all add: tasc_takeover_def tasc_build_def tasc_relax_def Let_def)

lemma history_tasc_adjust:
  "notch_history (tasc_adjust sim cur rem dw pred) = notch_history sim"
  by (simp add: tasc_adjust_def Let_def case_prod_beta history_tasc_parts)

lemma history_tasc_predict:
  "tasc_predict sim cur v = Inr (x, sim') \<Longrightarrow> notch_history sim' = notch_history sim"
  by (auto simp: tasc_predict_def Let_def split: if_splits sum.splits)

lemma history_tasc_update:
  "tasc_update sim = Inr sim' \<Longrightarrow> notch_history sim' = notch_history sim"
  by (auto simp: tasc_update_def Let_def history_tasc_parts history_tasc_adjust
      split: if_splits sum.splits dest!: history_tasc_predict)

lemma history_dynamics_parts:
  "notch_history (update_brake_dyn_split sim c v e dt) = notch_history sim"
  "notch_history (integrate sim n a) = notch_history sim"
  by (simp_all add: update_brake_dyn_split_def integrate_def Let_def split del: if_split)

lemma history_wsp: "notch_history (snd (wsp_update sim v a dt)) = notch_history sim"
  by (simp add: wsp_update_def Let_def split: wsp.splits split del: if_split) simp

lemma history_brake_stage: "notch_history (snd (brake_stage sim)) = notch_history sim"
  by (simp add: brake_stage_def Let_def history_dynamics_parts history_wsp)

lemma history_dynamics:
  "dynamics sim = Inr sim' \<Longrightarrow> notch_history sim' = notch_history sim"
  unfolding dynamics_def Let_def case_prod_beta
  by (auto split: sum.splits simp: history_brake_stage history_dynamics_parts)

lemma finish_run_result:
  assumes "finish_run sim = Inr sim'"
  shows "\<exists>js. state sim' =
           (state sim)\<lparr>finished := True,
              stop_error_m := Some (scn_L (scn sim) - st_s (state sim)),
              residual_speed_kmh := Some (st_v (state sim) * 3.6),
              issues := Some (finish_issues sim (scn_L (scn sim) - st_s (state sim))),
              score := Some (normalize_score
                               (raw_score sim (scn_L (scn sim) - st_s (state sim)) js))\<rparr>
         \<and> notch_history sim' = notch_history sim"
  using assms unfolding finish_run_def Let_def
  by (auto split: sum.splits prod.splits if_splits)

subsection \<open>Rounding and the shape of a tick\<close>


lemma score_commands:
  "score (state (notch_command sim c)) = score (state sim)"
  "score (state (apply_command sim c)) = score (state sim)"
  by (simp_all add: notch_command_def apply_command_def prime_filter_frame Let_def)

lemma score_drain_loop: "score (state (drain_loop q sim)) = score (state sim)"
  by (induction q arbitrary: sim) (simp_all add: score_commands)



lemma step_cases:
  assumes "step sim = Inr sim'"
  shows "(finished (state sim) \<and> finished (state sim') \<and> st_v (state sim') = max 0 (st_v (state sim))
            \<and> score (state sim') = score (state sim))
         \<or> (\<not> finished (state sim) \<and>
              (\<exists>pre. finished (state pre) = False \<and> 0 \<le> st_v (state pre)
                  \<and> finish_check pre = Inr sim'
                  \<and> notch_history pre = notch_history (record_history (drain_queue sim))))"
proof -
  define sim1 where "sim1 = record_history (drain_queue sim)"
  have f1: "finished (state sim1) = finished (state sim)" "st_v (state sim1) = st_v (state sim)"
    "score (state sim1) = score (state sim)"
    by (simp_all add: sim1_def record_history_frame drain_queue_def drain_loop_frame
        score_drain_loop)
  show ?thesis
  proof (cases "finished (state sim)")
    case True
    with assms f1 show ?thesis
      by (auto simp: step_def Let_def sim1_def[symmetric])
  next
    case False
    with assms f1 obtain sim2 sim3 sim4 where
      a: "first_brake_update sim1 = Inr sim2" and b: "tasc_update (timer_update sim2) = Inr sim3"
      and c: "dynamics sim3 = Inr sim4" and d: "finish_check sim4 = Inr sim'"
      by (auto simp: step_def Let_def sim1_def[symmetric] split: sum.splits)
    have "finished (state sim4) = False"
      using first_brake_update_frame[OF a] tasc_update_frame[OF b] dynamics_frame[OF c] f1 False
      by (simp add: timer_update_frame)
    moreover have "0 \<le> st_v (state sim4)" using dynamics_frame[OF c] by simp
    moreover have "notch_history sim4 = notch_history sim1"
      using history_first_brake[OF a] history_tasc_update[OF b] history_dynamics[OF c]
      by (simp add: history_timer)
    ultimately show ?thesis using False d unfolding sim1_def by blast
  qed
qed

subsection \<open>The staircase classifier\<close>

lemma stair_examples:
  "is_stair_pattern [0,0,1,1,2,2,3,3,2,2,1,1]"
  "\<not> is_stair_pattern [0,1,2,3,4,5]"
  by (simp_all add: is_stair_pattern_def remove_adjacent_duplicates_def
      remove_negative_values_def)

text \<open>
  C9. The staircase classifier rejects every notch history whose sequence, after collapsing
  adjacent duplicates and dropping everything up to and including the last negative entry,
  has fewer than five elements. The history \<open>[0,1,2,1]\<close> is such a one: it is its own reduced
  sequence, it passes the rise-then-fall loop and ends at notch 1, and it is still rejected.
\<close>

theorem stair_requires_five:
  "(length (remove_negative_values (remove_adjacent_duplicates ns)) < 5
      \<longrightarrow> is_stair_pattern ns = False)
   \<and> remove_negative_values (remove_adjacent_duplicates [0,1,2,1]) = [0,1,2,1]
   \<and> stair_loop False 0 [1,2,1] \<and> last [0,1,2,1 :: int] \<in> {1, 2}
   \<and> is_stair_pattern [0,1,2,1] = False"
  by (simp add: is_stair_pattern_def remove_adjacent_duplicates_def
      remove_negative_values_def)

theorem stair_requires_five_witness:
  "length (remove_negative_values (remove_adjacent_duplicates [0,1,2,1])) < 5
   \<and> is_stair_pattern [0,1,2,1] = False"
  using stair_requires_five [of "[0,1,2,1]"]
  by (simp add: remove_adjacent_duplicates_def remove_negative_values_def)

subsection \<open>A tick returns\<close>

lemma davis_accel_returns:
  "mass_kg (veh sim) \<noteq> 0 \<Longrightarrow> \<exists>a. davis_accel sim v = Inr a"
  by (simp add: davis_accel_def py_div_def Let_def)

lemma power_accel_rated_returns:
  "mass_kg (veh sim) \<noteq> 0 \<Longrightarrow> \<exists>a. power_accel_rated sim n v = Inr a"
  by (simp add: power_accel_rated_def py_div_def Let_def case_prod_beta split del: if_split)

lemma power_accel_fallback_returns:
  assumes "forward_notch_accels (veh sim) \<noteq> []"
  shows "\<exists>a. power_accel_fallback sim n v = Inr a"
proof -
  have "0 < int (length (forward_notch_accels (veh sim)))" using assms by simp
  then have "\<not> max 0 (min (- n - 1) (int (length (forward_notch_accels (veh sim))) - 1))
               \<ge> int (length (forward_notch_accels (veh sim)))"
    by linarith
  then show ?thesis
    by (simp add: power_accel_fallback_def Let_def split del: if_split)
qed

lemma compute_power_accel_returns:
  "mass_kg (veh sim) \<noteq> 0 \<Longrightarrow> forward_notch_accels (veh sim) \<noteq> [] \<Longrightarrow>
     \<exists>a. compute_power_accel sim n v = Inr a"
  using power_accel_rated_returns[of sim n v] power_accel_fallback_returns[of sim n v]
  by (simp add: compute_power_accel_def)

lemma rollout_body_returns:
  assumes "mass_kg (veh sim) \<noteq> 0" "forward_notch_accels (veh sim) \<noteq> []"
  shows "\<exists>r'. rollout_body sim n rem r = Inr r'"
proof -
  obtain p where p: "(if n < 0 then compute_power_accel sim n (r_v r) else Inr 0) = Inr p"
    using compute_power_accel_returns[OF assms, of n "r_v r"] by (cases "n < 0") auto
  obtain d where d: "davis_accel sim (r_v r) = Inr d"
    using davis_accel_returns[OF assms(1)] by blast
  show ?thesis
    unfolding rollout_body_def Let_def case_prod_beta p d by (simp split del: if_split)
qed

lemma rollout_loop_returns:
  assumes "mass_kg (veh sim) \<noteq> 0" "forward_notch_accels (veh sim) \<noteq> []"
  shows "\<exists>r'. rollout_loop k sim n rem lm r = Inr r'"
proof (induction k arbitrary: r)
  case 0
  show ?case by simp
next
  case (Suc k)
  obtain r1 where "rollout_body sim n rem r = Inr r1"
    using rollout_body_returns[OF assms] by blast
  with Suc show ?case by simp
qed

lemma stopping_distance_returns:
  assumes "mass_kg (veh sim) \<noteq> 0" "forward_notch_accels (veh sim) \<noteq> []"
  shows "\<exists>d. stopping_distance sim n v = Inr d"
proof -
  obtain r where "rollout_loop 2400 sim n (scn_L (scn sim) - st_s (state sim))
      (scn_L (scn sim) - st_s (state sim) + 8)
      \<lparr>r_v = max 0 v, r_a = st_a (state sim), r_s = 0, r_brk_elec = brk_elec sim,
        r_brk_air = brk_air sim, r_wsp_state = wsp_state sim,
        r_wsp_timer = wsp_timer sim, r_a_cmd_filt = a_cmd_filt sim\<rparr> = Inr r"
    using rollout_loop_returns[OF assms] by blast
  then show ?thesis
    by (simp add: stopping_distance_def estimate_stop_distance_def Let_def)
qed

lemma tasc_predict_returns:
  assumes "mass_kg (veh sim) \<noteq> 0" "forward_notch_accels (veh sim) \<noteq> []"
  shows "\<exists>x. tasc_predict sim cur v = Inr x"
proof -
  obtain a where a: "(if cur > 0 then stopping_distance sim cur v else Inr PInf) = Inr a"
    using stopping_distance_returns[OF assms, of cur v] by (cases "cur > 0") auto
  obtain b where b: "(if cur + 1 \<le> notches (veh sim) - 2 then stopping_distance sim (cur + 1) v
                        else Inr (Fin 0)) = Inr b"
    using stopping_distance_returns[OF assms, of "cur + 1" v]
    by (cases "cur + 1 \<le> notches (veh sim) - 2") auto
  obtain c where c: "(if cur - 1 \<ge> 1 then stopping_distance sim (cur - 1) v
                            else Inr PInf) = Inr c"
    using stopping_distance_returns[OF assms, of "cur - 1" v] by (cases "cur - 1 \<ge> 1") auto
  show ?thesis
    unfolding tasc_predict_def Let_def a b c by simp
qed

lemma tasc_update_returns:
  assumes "mass_kg (veh sim) \<noteq> 0" "forward_notch_accels (veh sim) \<noteq> []"
  shows "\<exists>sim'. tasc_update sim = Inr sim'"
proof -
  have "mass_kg (veh (tasc_takeover sim)) \<noteq> 0" "forward_notch_accels (veh (tasc_takeover sim)) \<noteq> []"
    using assms by (simp_all add: tasc_takeover_frame)
  from tasc_predict_returns[OF this]
  obtain x where "tasc_predict (tasc_takeover sim) (internal_notch (state sim)) (st_v (state sim)) = Inr x"
    by blast
  then show ?thesis
    by (cases x) (simp add: tasc_update_def Let_def)
qed

lemma traction_term_returns:
  assumes "mass_kg (veh sim) \<noteq> 0" "forward_notch_accels (veh sim) \<noteq> []"
  shows "\<exists>p. traction_term sim = Inr p"
  using compute_power_accel_returns[OF assms, of "lever_notch (state sim)" "st_v (state sim)"]
    compute_power_accel_returns[OF assms,
      of "max (lever_notch (state sim)) (internal_notch (state sim))" "st_v (state sim)"]
  by (cases "atc_overspeed (state sim)") (auto simp: traction_term_def Let_def)

lemma dynamics_returns:
  assumes "mass_kg (veh sim) \<noteq> 0" "forward_notch_accels (veh sim) \<noteq> []"
  shows "\<exists>sim'. dynamics sim = Inr sim'"
proof -
  obtain p where p: "traction_term sim = Inr p"
    using traction_term_returns[OF assms] by blast
  obtain d where d: "davis_accel (snd (brake_stage sim)) (st_v (state sim)) = Inr d"
    using davis_accel_returns[of "snd (brake_stage sim)"] assms(1)
    by (auto simp: brake_stage_frame)
  show ?thesis
    unfolding dynamics_def Let_def case_prod_beta p d by simp
qed

lemma compute_jerk_score_returns:
  "dt \<noteq> 0 \<Longrightarrow> \<exists>x. compute_jerk_score dt h = Inr x"
  by (simp add: compute_jerk_score_def py_div_def)

lemma finish_check_returns:
  assumes "scn_dt (scn sim) \<noteq> 0"
  shows "\<exists>sim'. finish_check sim = Inr sim'"
proof -
  obtain x where "compute_jerk_score (scn_dt (scn sim))
       (jerk_history sim @ [\<bar>(st_a (state sim) - prev_a sim) / scn_dt (scn sim)\<bar>]) = Inr x"
    using compute_jerk_score_returns[OF assms] by blast
  then show ?thesis using assms
    by (cases x) (simp add: finish_check_def finish_run_def py_div_def Let_def)
qed

lemma first_brake_update_returns:
  "(first_brake_notch sim \<noteq> None \<longrightarrow> first_brake_start_t sim \<noteq> None) \<Longrightarrow>
     \<exists>sim'. first_brake_update sim = Inr sim'"
  by (auto simp: first_brake_update_def Let_def split: option.splits)

lemma first_brake_commands:
  "first_brake_notch (apply_command sim c) = first_brake_notch sim"
  "first_brake_start_t (apply_command sim c) = first_brake_start_t sim"
  by (simp_all add: notch_command_def prime_filter_def apply_command_def Let_def
      split: sum.splits)

lemma first_brake_drain_loop:
  "first_brake_notch (drain_loop q sim) = first_brake_notch sim
   \<and> first_brake_start_t (drain_loop q sim) = first_brake_start_t sim"
  by (induction q arbitrary: sim) (simp_all add: first_brake_commands)

lemma step_returns:
  assumes "tick_ready sim"
  shows "\<exists>sim'. step sim = Inr sim'"
proof -
  define sim1 where "sim1 = record_history (drain_queue sim)"
  have r1: "veh sim1 = veh sim" "scn sim1 = scn sim"
    by (simp_all add: sim1_def record_history_frame drain_queue_def drain_loop_frame)
  have fb: "first_brake_notch sim1 = first_brake_notch sim"
    "first_brake_start_t sim1 = first_brake_start_t sim"
    by (simp_all add: sim1_def record_history_def Let_def drain_queue_def first_brake_drain_loop)
  show ?thesis
  proof (cases "finished (state sim1)")
    case True
    then show ?thesis by (simp add: step_def Let_def sim1_def[symmetric])
  next
    case False
    obtain sim2 where a: "first_brake_update sim1 = Inr sim2"
      using first_brake_update_returns[of sim1] assms fb by (auto simp: tick_ready_def)
    have r2: "veh sim2 = veh sim" "scn sim2 = scn sim"
      using first_brake_update_frame[OF a] r1 by simp_all
    obtain sim3 where b: "tasc_update (timer_update sim2) = Inr sim3"
      using tasc_update_returns[of "timer_update sim2"] assms r2
      by (auto simp: tick_ready_def timer_update_frame)
    have r3: "veh sim3 = veh sim" "scn sim3 = scn sim"
      using tasc_update_frame[OF b] r2 by (simp_all add: timer_update_frame)
    obtain sim4 where c: "dynamics sim3 = Inr sim4"
      using dynamics_returns[of sim3] assms r3 by (auto simp: tick_ready_def)
    have r4: "scn sim4 = scn sim" using dynamics_frame[OF c] r3 by simp
    obtain sim5 where d: "finish_check sim4 = Inr sim5"
      using finish_check_returns[of sim4] assms r4 by (auto simp: tick_ready_def)
    show ?thesis using False a b c d
      by (simp add: step_def Let_def sim1_def[symmetric])
  qed
qed

lemma finish_check_result:
  assumes "finish_check pre = Inr sim'"
  shows "st_v (state sim') = st_v (state pre)"
    and "notch_history sim' = notch_history pre"
    and "\<not> finished (state pre) \<Longrightarrow> finished (state sim') \<Longrightarrow>
          \<exists>js. stop_error_m (state sim') = Some (scn_L (scn pre) - st_s (state pre))
            \<and> issues (state sim') = Some (finish_issues pre (scn_L (scn pre) - st_s (state pre)))
            \<and> score (state sim') = Some (normalize_score
                 (raw_score pre (scn_L (scn pre) - st_s (state pre)) js))"
proof -
  show "st_v (state sim') = st_v (state pre)"
    using assms finish_run_result[of pre sim']
    by (auto simp: finish_check_def Let_def split: if_splits)
  show "notch_history sim' = notch_history pre"
    using assms finish_run_result[of pre sim']
    by (auto simp: finish_check_def Let_def split: if_splits)
  assume "\<not> finished (state pre)" "finished (state sim')"
  with assms have "finish_run pre = Inr sim'"
    by (auto simp: finish_check_def Let_def split: if_splits)
  from finish_run_result[OF this] show "\<exists>js. stop_error_m (state sim') = Some (scn_L (scn pre) - st_s (state pre))
            \<and> issues (state sim') = Some (finish_issues pre (scn_L (scn pre) - st_s (state pre)))
            \<and> score (state sim') = Some (normalize_score
                 (raw_score pre (scn_L (scn pre) - st_s (state pre)) js))"
    by auto
qed




subsection \<open>Evaluation of concrete ticks\<close>


lemmas demo_defs = default_sim_def init_sim_def default_vehicle_def
      default_scenario_def new_State_def

lemmas eval_congs = let_weak_cong if_weak_cong sum.case_cong_weak prod.case_cong_weak
  option.case_cong_weak wsp.case_cong_weak list.case_cong_weak



subsection \<open>Claims about the tick\<close>

text \<open>
  C7. After every simulation tick the velocity of the train is non-negative, from any state
  whatever: the integration floors the new velocity at 0, and a finished run keeps the
  floor. A tick raises no exception, and so produces such a state, whenever the mass and
  the time step are not zero, the traction table is not empty and a running first-brake
  dwell has its start time.
\<close>

theorem velocity_never_negative:
  "(step sim = Inr sim' \<longrightarrow> 0 \<le> st_v (state sim'))
   \<and> (tick_ready sim \<longrightarrow> (\<exists>sim''. step sim = Inr sim'' \<and> 0 \<le> st_v (state sim'')))"
proof -
  have a: "0 \<le> st_v (state s')" if "step sim = Inr s'" for s'
    using step_cases[OF that] finish_check_result(1) by auto
  from a step_returns[of sim] show ?thesis by blast
qed

theorem velocity_never_negative_witness:
  "tick_ready default_sim
   \<and> (\<exists>sim'. step default_sim = Inr sim' \<and> 0 \<le> st_v (state sim'))"
  using velocity_never_negative [of default_sim]
  by (simp add: tick_ready_def demo_defs)





subsection \<open>The dynamics block\<close>

lemma effective_brake_accel_cong:
  "veh s = veh sim \<Longrightarrow> scn s = scn sim \<Longrightarrow>
     effective_brake_accel s n v = effective_brake_accel sim n v"
  by (simp add: effective_brake_accel_def)

lemma compute_power_accel_cong:
  "veh s = veh sim \<Longrightarrow> compute_power_accel s n v = compute_power_accel sim n v"
  by (simp only: compute_power_accel_def power_accel_rated_def power_accel_fallback_def)

lemma wsp_value_cong:
  "scn A = scn B \<Longrightarrow> wsp_state A = wsp_state B \<Longrightarrow> wsp_timer A = wsp_timer B \<Longrightarrow>
     fst (wsp_update A v a dt) = fst (wsp_update B v a dt)"
  by (simp add: wsp_update_def Let_def split: wsp.splits split del: if_split) simp

lemma brake_stage_value:
  "fst (brake_stage sim) =
     fst (wsp_update sim (st_v (state sim))
            (brk_accel (update_brake_dyn_split sim
                (effective_brake_accel sim
                   (max (lever_notch (state sim)) (internal_notch (state sim))) (st_v (state sim)))
                (st_v (state sim))
                (max (lever_notch (state sim)) (internal_notch (state sim)) = notches (veh sim) - 1)
                (scn_dt (scn sim))))
            (scn_dt (scn sim)))"
proof -
  have "wsp_state (update_brake_dyn_split sim c v e dt) = wsp_state sim"
    "wsp_timer (update_brake_dyn_split sim c v e dt) = wsp_timer sim" for c v e dt
    by (simp_all add: update_brake_dyn_split_def Let_def split del: if_split)
  then show ?thesis
    unfolding brake_stage_def Let_def
    by (intro wsp_value_cong) (simp_all add: update_brake_dyn_split_frame)
qed

lemma brake_split_cong:
  "brk_elec A = brk_elec B \<Longrightarrow> brk_air A = brk_air B \<Longrightarrow>
     brk_accel (update_brake_dyn_split A c v e dt) = brk_accel (update_brake_dyn_split B c v e dt)"
  by (simp add: update_brake_dyn_split_def Let_def split del: if_split)

text \<open>
  C1, as the code has it. With the overspeed flag clear the traction term is computed from
  the lever notch alone and does not depend on the internal notch; with the flag set it is
  computed from the higher of the two notches. The braking term is computed from the higher
  of the two notches whatever the flag: any two settings of lever notch, internal notch
  and flag with the same maximum give the same brake acceleration.
\<close>

theorem effective_notch_use:
  "(\<not> atc_overspeed (state sim) \<longrightarrow>
       traction_term sim = compute_power_accel sim (lever_notch (state sim)) (st_v (state sim))
       \<and> traction_term (sim\<lparr>state := (state sim)\<lparr>internal_notch := k\<rparr>\<rparr>) = traction_term sim)
   \<and> (atc_overspeed (state sim) \<longrightarrow>
       traction_term sim =
         compute_power_accel sim (max (lever_notch (state sim)) (internal_notch (state sim)))
           (st_v (state sim)))
   \<and> fst (brake_stage (sim\<lparr>state := (state sim)\<lparr>lever_notch := l, internal_notch := i,
                                                atc_overspeed := b\<rparr>\<rparr>))
       = fst (brake_stage (sim\<lparr>state := (state sim)\<lparr>lever_notch := max l i,
                                                  internal_notch := max l i,
                                                  atc_overspeed := b'\<rparr>\<rparr>))"
proof -
  have t1: "traction_term sim = compute_power_accel sim (lever_notch (state sim)) (st_v (state sim))"
    and t2: "traction_term (sim\<lparr>state := (state sim)\<lparr>internal_notch := k\<rparr>\<rparr>) = traction_term sim"
    if "\<not> atc_overspeed (state sim)"
    using that
      compute_power_accel_cong[of "sim\<lparr>state := (state sim)\<lparr>internal_notch := k\<rparr>\<rparr>" sim]
    by (simp_all add: traction_term_def Let_def)
  have t3: "traction_term sim =
         compute_power_accel sim (max (lever_notch (state sim)) (internal_notch (state sim)))
           (st_v (state sim))" if "atc_overspeed (state sim)"
    using that by (simp add: traction_term_def Let_def)
  define A where "A = sim\<lparr>state := (state sim)\<lparr>lever_notch := l, internal_notch := i,
                                                atc_overspeed := b\<rparr>\<rparr>"
  define B where "B = sim\<lparr>state := (state sim)\<lparr>lever_notch := max l i,
                                                  internal_notch := max l i,
                                                  atc_overspeed := b'\<rparr>\<rparr>"
  have ab: "veh A = veh B" "scn A = scn B" "wsp_state A = wsp_state B"
    "wsp_timer A = wsp_timer B" "brk_elec A = brk_elec B" "brk_air A = brk_air B"
    "st_v (state A) = st_v (state B)"
    "max (lever_notch (state A)) (internal_notch (state A))
       = max (lever_notch (state B)) (internal_notch (state B))"
    by (simp_all add: A_def B_def)
  have "fst (brake_stage A) = fst (brake_stage B)"
    unfolding brake_stage_value
    using wsp_value_cong[OF ab(2,3,4)] brake_split_cong[OF ab(5,6)]
      effective_brake_accel_cong[OF ab(1,2)]
    by (simp add: ab)
  with t1 t2 t3 show ?thesis unfolding A_def B_def by blast
qed

text \<open>
  C1 fails as it is stated: with the flag clear and the lever in neutral, an internal
  notch of 3 produces a braking term in the tick, and an internal notch of 0 produces
  none.
\<close>

theorem internal_notch_brakes_without_override:
  "\<not> atc_overspeed (state internal_brake_sim) \<and> lever_notch (state internal_brake_sim) = 0
   \<and> internal_notch (state internal_brake_sim) = 3
   \<and> fst (brake_stage internal_brake_sim) = - 1 / 72
   \<and> fst (brake_stage (internal_brake_sim
             \<lparr>state := (state internal_brake_sim)\<lparr>internal_notch := 0\<rparr>\<rparr>)) = 0"
  by (simp add: internal_brake_sim_def demo_defs brake_stage_def effective_brake_accel_def
      update_brake_dyn_split_def blend_w_regen_def tau_elec_def tau_air_def wsp_update_def
      Let_def cong: eval_congs)

theorem effective_notch_use_witness:
  "\<not> atc_overspeed (state internal_brake_sim)
   \<and> traction_term internal_brake_sim = Inr 0
   \<and> traction_term (internal_brake_sim
        \<lparr>state := (state internal_brake_sim)\<lparr>internal_notch := - 2\<rparr>\<rparr>) = Inr 0
   \<and> atc_overspeed (state (internal_brake_sim
        \<lparr>state := (state internal_brake_sim)\<lparr>atc_overspeed := True\<rparr>\<rparr>))
   \<and> traction_term (internal_brake_sim
        \<lparr>state := (state internal_brake_sim)\<lparr>atc_overspeed := True\<rparr>\<rparr>) = Inr 0"
  using effective_notch_use [where sim = internal_brake_sim and k = "- 2"]
    effective_notch_use [where sim = "internal_brake_sim
        \<lparr>state := (state internal_brake_sim)\<lparr>atc_overspeed := True\<rparr>\<rparr>"]
  by (simp add: internal_brake_sim_def demo_defs compute_power_accel_def)

subsection \<open>The jerk score\<close>







subsection \<open>The stopping predictor\<close>






subsection \<open>Notch bounds\<close>

lemma clamp_notch_veh: "veh s = veh sim \<Longrightarrow> clamp_notch s n = clamp_notch sim n"
  by (simp add: clamp_notch_def)

lemma clamp_notch_range:
  assumes "notches (veh sim) = int (length (notch_accels (veh sim)))" "2 \<le> notches (veh sim)"
  shows "- int (length (forward_notch_accels (veh sim))) \<le> clamp_notch sim n"
    and "clamp_notch sim n \<le> notches (veh sim) - 2"
    and "1 \<le> n \<Longrightarrow> n \<le> notches (veh sim) - 2 \<Longrightarrow> clamp_notch sim n = n"
  using assms by (auto simp: clamp_notch_def Let_def)

lemma tasc_build_internal:
  "internal_notch (state (snd (tasc_build sim cur rem dw sc))) = internal_notch (state sim)
   \<or> (cur < notches (veh sim) - 2
       \<and> internal_notch (state (snd (tasc_build sim cur rem dw sc))) = clamp_notch sim (cur + 1))"
  by (simp add: tasc_build_def Let_def)

lemma tasc_relax_internal:
  "internal_notch (state (tasc_relax sim cur rem dw sd)) = internal_notch (state sim)
   \<or> (1 < cur
       \<and> internal_notch (state (tasc_relax sim cur rem dw sd)) = clamp_notch sim (cur - 1))"
  by (simp add: tasc_relax_def Let_def)

lemma tasc_adjust_internal:
  "internal_notch (state (tasc_adjust sim cur rem dw pred)) = internal_notch (state sim)
   \<or> (cur < notches (veh sim) - 2
       \<and> internal_notch (state (tasc_adjust sim cur rem dw pred)) = clamp_notch sim (cur + 1))
   \<or> (1 < cur
       \<and> internal_notch (state (tasc_adjust sim cur rem dw pred)) = clamp_notch sim (cur - 1))"
proof -
  obtain s_cur s_up s_dn where pr: "pred = (s_cur, s_up, s_dn)" by (cases pred) auto
  define b where "b = tasc_build sim cur rem dw s_cur"
  have v: "veh (snd b) = veh sim" by (simp add: b_def tasc_build_frame)
  show ?thesis
    using tasc_build_internal[of sim cur rem dw s_cur]
      tasc_relax_internal[of "snd b" cur rem dw s_dn] clamp_notch_veh[OF v]
    by (auto simp: tasc_adjust_def pr Let_def case_prod_beta b_def[symmetric])
qed

lemma tasc_update_internal:
  assumes "tasc_update sim = Inr sim'"
  shows "internal_notch (state sim') = internal_notch (state sim)
   \<or> (internal_notch (state sim) < notches (veh sim) - 2
       \<and> internal_notch (state sim') = clamp_notch sim (internal_notch (state sim) + 1))
   \<or> (1 < internal_notch (state sim)
       \<and> internal_notch (state sim') = clamp_notch sim (internal_notch (state sim) - 1))"
proof (cases "tasc_enabled sim \<and> \<not> finished (state sim) \<and> tasc_active (tasc_takeover sim)
               \<and> first_brake_done (tasc_takeover sim)")
  case False
  with assms have "state sim' = state sim"
    by (auto simp: tasc_update_def Let_def tasc_takeover_frame split: if_splits)
  then show ?thesis by simp
next
  case True
  with assms obtain pred sim2 where
    p: "tasc_predict (tasc_takeover sim) (internal_notch (state sim)) (st_v (state sim))
          = Inr (pred, sim2)"
    and r: "sim' = tasc_adjust sim2 (internal_notch (state sim))
                     (scn_L (scn sim) - st_s (state sim))
                     (st_t (state sim) - tasc_last_change_t sim \<ge> tasc_hold_min_s sim) pred"
    by (auto simp: tasc_update_def Let_def split: sum.splits)
  from tasc_predict_frame[OF p] have f: "state sim2 = state sim" "veh sim2 = veh sim"
    by (simp_all add: tasc_takeover_frame)
  show ?thesis
    unfolding r
    using tasc_adjust_internal[of sim2 "internal_notch (state sim)"
        "scn_L (scn sim) - st_s (state sim)"
        "st_t (state sim) - tasc_last_change_t sim \<ge> tasc_hold_min_s sim" pred]
      clamp_notch_veh[OF f(2)]
    by (simp add: f)
qed

lemma notch_command_lever:
  "cmd_name c = ''stepNotch'' \<Longrightarrow>
     lever_notch (state (apply_command sim c)) = clamp_notch sim (lever_notch (state sim) + cmd_val c)"
  "cmd_name c = ''setNotch'' \<Longrightarrow>
     lever_notch (state (apply_command sim c)) = clamp_notch sim (cmd_val c)"
  "cmd_name c = ''release'' \<Longrightarrow> lever_notch (state (apply_command sim c)) = 0"
  "cmd_name c = ''emergencyBrake'' \<Longrightarrow>
     lever_notch (state (apply_command sim c)) = notches (veh sim) - 1"
  by (simp_all add: apply_command_def prime_filter_frame notch_command_def Let_def)

text \<open>
  C5, as the code has it. For a vehicle whose \<open>notches\<close> is the length of its braking
  table, at least 2: when the internal notch is within 0 and \<open>notches - 2\<close> at the start of
  the controller block, it is so at its end, it is never the emergency notch, and a value
  written by the controller is at least 1. A step, set or release command leaves the lever
  notch between minus the length of the traction table and \<open>notches - 2\<close>; the emergency
  brake command sets it to \<open>notches - 1\<close>.
\<close>

theorem notch_bounds:
  assumes "notches (veh sim) = int (length (notch_accels (veh sim)))"
    and "2 \<le> notches (veh sim)"
  shows "(tasc_update sim = Inr sim' \<and> 0 \<le> internal_notch (state sim)
            \<and> internal_notch (state sim) \<le> notches (veh sim) - 2
          \<longrightarrow> 0 \<le> internal_notch (state sim')
              \<and> internal_notch (state sim') \<le> notches (veh sim) - 2
              \<and> internal_notch (state sim') \<noteq> notches (veh sim) - 1
              \<and> (internal_notch (state sim') \<noteq> internal_notch (state sim)
                    \<longrightarrow> 1 \<le> internal_notch (state sim')))
       \<and> (cmd_name c \<in> {''stepNotch'', ''setNotch'', ''release''}
          \<longrightarrow> - int (length (forward_notch_accels (veh sim)))
                 \<le> lever_notch (state (apply_command sim c))
              \<and> lever_notch (state (apply_command sim c)) \<le> notches (veh sim) - 2)
       \<and> (cmd_name ceb = ''emergencyBrake''
          \<longrightarrow> lever_notch (state (apply_command sim ceb)) = notches (veh sim) - 1)"
proof -
  note cr = clamp_notch_range[OF assms]
  have a: "0 \<le> internal_notch (state sim')
              \<and> internal_notch (state sim') \<le> notches (veh sim) - 2
              \<and> internal_notch (state sim') \<noteq> notches (veh sim) - 1
              \<and> (internal_notch (state sim') \<noteq> internal_notch (state sim)
                    \<longrightarrow> 1 \<le> internal_notch (state sim'))"
    if u: "tasc_update sim = Inr sim'" and lo: "0 \<le> internal_notch (state sim)"
      and hi: "internal_notch (state sim) \<le> notches (veh sim) - 2"
    using tasc_update_internal[OF u] lo hi
      cr(3)[of "internal_notch (state sim) + 1"] cr(3)[of "internal_notch (state sim) - 1"]
    by auto
  have b: "- int (length (forward_notch_accels (veh sim)))
                 \<le> lever_notch (state (apply_command sim c))
              \<and> lever_notch (state (apply_command sim c)) \<le> notches (veh sim) - 2"
    if "cmd_name c \<in> {''stepNotch'', ''setNotch'', ''release''}"
    using that cr(1,2) assms(2) notch_command_lever(1,2,3)[of c sim]
    by auto
  from a b notch_command_lever(4)[of ceb sim] show ?thesis by blast
qed

lemma negative_internal_update:
  "\<not> isl (tasc_update negative_internal_sim)
   \<and> internal_notch (state (projr (tasc_update negative_internal_sim))) = - 2"
  by (simp add: negative_internal_sim_def tasc_active_sim_def demo_defs apply_command_def
      notch_command_def prime_filter_def clamp_notch_def tasc_update_def tasc_takeover_def
      tasc_predict_def stopping_distance_def tasc_adjust_def tasc_build_def tasc_relax_def
      xgt_def xle_def Let_def cong: eval_congs)

lemma cached_prediction_update:
  "\<not> isl (tasc_update cached_prediction_sim)
   \<and> internal_notch (state (projr (tasc_update cached_prediction_sim))) = 1"
  by (simp add: cached_prediction_sim_def tasc_active_sim_def demo_defs
      clamp_notch_def tasc_update_def tasc_takeover_def
      tasc_predict_def tasc_adjust_def tasc_build_def tasc_relax_def
      xgt_def xle_def Let_def cong: eval_congs)

theorem notch_bounds_witness:
  "notches (veh cached_prediction_sim) = int (length (notch_accels (veh cached_prediction_sim)))
   \<and> 2 \<le> notches (veh cached_prediction_sim)
   \<and> tasc_update cached_prediction_sim = Inr (projr (tasc_update cached_prediction_sim))
   \<and> internal_notch (state cached_prediction_sim) = 0
   \<and> internal_notch (state (projr (tasc_update cached_prediction_sim))) = 1
   \<and> lever_notch (state (apply_command cached_prediction_sim
         \<lparr>cmd_t = 1, cmd_name = ''setNotch'', cmd_val = 99\<rparr>)) \<le> 7
   \<and> lever_notch (state (apply_command cached_prediction_sim
         \<lparr>cmd_t = 1, cmd_name = ''emergencyBrake'', cmd_val = 0\<rparr>)) = 8"
proof -
  have v: "notches (veh cached_prediction_sim)
             = int (length (notch_accels (veh cached_prediction_sim)))"
    "2 \<le> notches (veh cached_prediction_sim)" "notches (veh cached_prediction_sim) = 9"
    "internal_notch (state cached_prediction_sim) = 0"
    by (simp_all add: cached_prediction_sim_def tasc_active_sim_def demo_defs)
  have u: "tasc_update cached_prediction_sim = Inr (projr (tasc_update cached_prediction_sim))"
    using cached_prediction_update by (cases "tasc_update cached_prediction_sim") auto
  from notch_bounds [OF v(1,2), where sim' = "projr (tasc_update cached_prediction_sim)"
      and c = "\<lparr>cmd_t = 1, cmd_name = ''setNotch'', cmd_val = 99\<rparr>"
      and ceb = "\<lparr>cmd_t = 1, cmd_name = ''emergencyBrake'', cmd_val = 0\<rparr>"]
    u v cached_prediction_update
  show ?thesis by simp
qed

text \<open>
  Without the condition on the internal notch the first part of C5 fails: the command
  \<open>setInternalNotch\<close> clamps its value like a lever notch, so it can leave a traction
  stage in the internal notch, and the build phase of the controller then writes the next
  stage, which is below 1.
\<close>

theorem controller_writes_traction_notch:
  "internal_notch (state negative_internal_sim) = - 3
   \<and> notches (veh negative_internal_sim) - 2 = 7
   \<and> \<not> isl (tasc_update negative_internal_sim)
   \<and> internal_notch (state (projr (tasc_update negative_internal_sim))) = - 2"
  using negative_internal_update
  by (simp add: negative_internal_sim_def tasc_active_sim_def demo_defs apply_command_def
      notch_command_def prime_filter_def clamp_notch_def Let_def cong: eval_congs)


subsection \<open>The emergency brake\<close>

lemma emergency_notch_command:
  assumes "cmd_name c = ''emergencyBrake''"
  shows "state (notch_command sim c) = (state sim)\<lparr>lever_notch := notches (veh sim) - 1\<rparr>"
    and "eb_used (notch_command sim c) = (if st_v (state sim) > 0 then True else eb_used sim)"
    and "cmd_queue (notch_command sim c) = cmd_queue sim"
  using assms by (simp_all add: notch_command_def Let_def)

lemma prime_filter_moving:
  "st_v (state sim) \<noteq> 0 \<Longrightarrow> prime_filter sim = sim"
  by (simp add: prime_filter_def)

text \<open>
  C6. The emergency-brake command issued at a positive velocity is applied in the call
  that issues it: the flag \<open>eb_used\<close> is set, the lever stands on the emergency notch, the
  command queue and the clock are as before, and the electric and the air share of the
  brake, their sum and the command filter hold the commanded emergency deceleration, split
  by the blend weight of the current speed.
\<close>

theorem emergency_brake_immediate:
  assumes "st_v (state sim) > 0"
  shows "let sim' = queue_command sim ''emergencyBrake'' val;
             a_eb = effective_brake_accel sim (notches (veh sim) - 1) (st_v (state sim));
             w = blend_w_regen (st_v (state sim))
         in eb_used sim' \<and> lever_notch (state sim') = notches (veh sim) - 1
            \<and> cmd_queue sim' = cmd_queue sim \<and> st_t (state sim') = st_t (state sim)
            \<and> brk_elec sim' = a_eb * w \<and> brk_air sim' = a_eb * (1 - w)
            \<and> brk_accel sim' = a_eb \<and> a_cmd_filt sim' = a_eb"
proof -
  define c where "c = \<lparr>cmd_t = st_t (state sim), cmd_name = ''emergencyBrake'', cmd_val = val\<rparr>"
  define sim1 where "sim1 = apply_command sim c"
  have n: "cmd_name c = ''emergencyBrake''" by (simp add: c_def)
  have v: "st_v (state (notch_command sim c)) \<noteq> 0"
    using assms by (simp add: notch_command_frame)
  have s1: "sim1 = notch_command sim c"
    unfolding sim1_def apply_command_def using prime_filter_moving[OF v] .
  have st: "state sim1 = (state sim)\<lparr>lever_notch := notches (veh sim) - 1\<rparr>"
    and eb: "eb_used sim1" and q: "cmd_queue sim1 = cmd_queue sim"
    and vh: "veh sim1 = veh sim" and sc: "scn sim1 = scn sim"
    using emergency_notch_command[OF n, of sim] assms
    by (simp_all add: s1 notch_command_frame)
  have a: "effective_brake_accel sim1 (notches (veh sim) - 1) (st_v (state sim))
             = effective_brake_accel sim (notches (veh sim) - 1) (st_v (state sim))"
    by (rule effective_brake_accel_cong[OF vh sc])
  have "queue_command sim ''emergencyBrake'' val =
          sim1\<lparr>brk_elec := effective_brake_accel sim (notches (veh sim) - 1) (st_v (state sim))
                    * blend_w_regen (st_v (state sim)),
                brk_air := effective_brake_accel sim (notches (veh sim) - 1) (st_v (state sim))
                    * (1 - blend_w_regen (st_v (state sim))),
                brk_accel := effective_brake_accel sim (notches (veh sim) - 1) (st_v (state sim))
                    * blend_w_regen (st_v (state sim))
                  + effective_brake_accel sim (notches (veh sim) - 1) (st_v (state sim))
                    * (1 - blend_w_regen (st_v (state sim))),
                a_cmd_filt := effective_brake_accel sim (notches (veh sim) - 1) (st_v (state sim))\<rparr>"
    unfolding queue_command_def
    by (simp add: Let_def c_def[symmetric] sim1_def[symmetric] st vh a)
  then show ?thesis
    by (simp add: Let_def st eb q algebra_simps)
qed

theorem emergency_brake_immediate_witness:
  "st_v (state default_sim) > 0
   \<and> eb_used (queue_command default_sim ''emergencyBrake'' 0)
   \<and> lever_notch (state (queue_command default_sim ''emergencyBrake'' 0)) = 8
   \<and> cmd_queue (queue_command default_sim ''emergencyBrake'' 0) = []
   \<and> brk_accel (queue_command default_sim ''emergencyBrake'' 0) = - 1.5
   \<and> a_cmd_filt (queue_command default_sim ''emergencyBrake'' 0) = - 1.5"
proof -
  have v: "st_v (state default_sim) > 0" by (simp add: demo_defs)
  have a: "effective_brake_accel default_sim 8 25 = - 1.5"
    by (simp add: effective_brake_accel_def demo_defs Let_def)
  have d: "notches (veh default_sim) = 8 + 1" "st_v (state default_sim) = 25"
    "cmd_queue default_sim = []"
    by (simp_all add: demo_defs)
  from emergency_brake_immediate [OF v, of 0] v a d show ?thesis
    by (simp add: Let_def)
qed

subsection \<open>Reset\<close>





end
